theory Spec2Isabelle
  imports Complex_Main "HOL-Library.Log_Nat"
begin

section \<open>Conventions\<close>

text \<open>
  The development embeds two small services: the watchlist service of \<^verbatim>\<open>src/main.py\<close>
  (watchlist table, stats-URL parser, listings normaliser) and the marketplace of
  \<^verbatim>\<open>src/tf2-api-python/tf2-api\<close> (items, orders, wallet).

  \<^item> A Python exception is a value of \<open>py_error\<close>; \<open>HTTPException n\<close> carries the status
    code the handler raises (400 and 422 are the invalid-input class, 403 forbidden,
    404 not found, 409 conflict). A handler returns the pair of its outcome and the
    database it leaves behind.
  \<^item> Every connection is opened with \<^verbatim>\<open>autocommit=True\<close> (\<^verbatim>\<open>database.py\<close>), so a
    statement is part of the database as soon as it has been executed.
  \<^item> A table is the list of its rows in insertion order; \<^verbatim>\<open>fetchone\<close> is \<open>find\<close>.
  \<^item> Monetary amounts are rationals. The balances are compared and updated exactly, as
    the decimal columns are; the amount of a new order is computed in binary floating
    point, as \<^verbatim>\<open>create_order\<close> does, a float being the rational it denotes.
  \<^item> The text the watchlist table and the stats-URL parser work on is a list of code
    points (type \<open>str\<close>). The tokens, statuses and JSON keys of the other parts are
    lists of 8-bit characters, which follow Python on ASCII text.
\<close>

datatype py_error =
    HTTPException nat
  | OperationalError
  | ProgrammingError
  | ValidationError
  | OverflowError
  | AttributeError
  | TypeError
  | ValueError

section \<open>Marketplace: schema\<close>

text \<open>The decoded session token (\<^verbatim>\<open>middleware/auth.py\<close>, \<^verbatim>\<open>get_current_user\<close>).\<close>

record user =
  user_id :: int
  is_admin :: bool

record item_row =
  item_id :: int
  seller_id :: int
  item_name :: string
  item_type :: string
  price_usdt :: rat
  item_quantity :: int
  item_network :: string
  item_status :: string

record order_row =
  order_id :: int
  buyer_id :: int
  order_item_id :: int
  order_quantity :: int
  amount_usdt :: rat
  order_network :: string
  payment_address :: string
  order_status :: string
  order_tx_hash :: "string option"

record balance_row =
  bal_user_id :: int
  bal_token :: string
  bal_network :: string
  bal_amount :: rat

record transaction_row =
  tx_user_id :: int
  tx_order_id :: "int option"
  tx_type :: string
  tx_amount :: rat
  tx_token :: string
  tx_network :: string
  tx_hash :: "string option"

record inventory_event =
  ev_user_id :: int
  ev_item_id :: int
  event_type :: string

record store =
  items :: "item_row list"
  orders :: "order_row list"
  balances :: "balance_row list"
  transactions :: "transaction_row list"
  inventory_events :: "inventory_event list"

type_synonym 'a result = "(py_error + 'a) \<times> store"

text \<open>
  Modelled from the spec: the relational schema (the \<^verbatim>\<open>CREATE TABLE\<close> statements) is
  not part of the sources. The handlers read \<^verbatim>\<open>cur.lastrowid\<close>, so \<open>id\<close> is an
  auto-increment key: no handler deletes a row, and the next id is one more than the
  largest id of the table.
\<close>

definition next_id :: "int list \<Rightarrow> int" where
  "next_id ids = fold max ids 0 + 1"

text \<open>
  Modelled from the spec: the column default of \<^verbatim>\<open>orders.status\<close>, which the
  \<^verbatim>\<open>INSERT\<close> of \<^verbatim>\<open>create_order\<close> leaves to the schema (section 4.5: an order is
  created pending).
\<close>

definition orders_status_default :: string where
  "orders_status_default = ''pending''"

section \<open>Marketplace: request bodies and constants\<close>

record DepositConfirm =
  dc_order_id :: int
  dc_tx_hash :: string
  dc_amount :: rat
  dc_token :: string
  dc_network :: string

record WithdrawRequest =
  wr_amount :: rat
  wr_token :: string
  wr_network :: string
  to_address :: string

record OrderCreate =
  oc_item_id :: int
  oc_quantity :: int

record ItemUpdate =
  upd_name :: "string option"
  upd_price_usdt :: "rat option"
  upd_quantity :: "int option"
  upd_status :: "string option"

definition VALID_TOKENS :: "string set" where
  "VALID_TOKENS = {''USDT'', ''USDC''}"

definition VALID_NETWORKS :: "string set" where
  "VALID_NETWORKS = {''polygon'', ''bsc''}"

definition VALID_STATUSES :: "string set" where
  "VALID_STATUSES = {''active'', ''sold'', ''cancelled''}"

definition is_hex :: "char \<Rightarrow> bool" where
  "is_hex c = (c \<in> set ''0123456789abcdefABCDEF'')"

text \<open>
  \<^verbatim>\<open>EVM_ADDRESS_RE.match\<close> for \<^verbatim>\<open>^0x[0-9a-fA-F]{40}$\<close>: Python's \<^verbatim>\<open>$\<close> also matches
  before one final newline.
\<close>

definition EVM_ADDRESS_RE_match :: "string \<Rightarrow> bool" where
  "EVM_ADDRESS_RE_match s =
     (take 2 s = ''0x'' \<and> length (take 40 (drop 2 s)) = 40 \<and>
      list_all is_hex (take 40 (drop 2 s)) \<and>
      (drop 42 s = [] \<or> drop 42 s = [CHR 0x0A]))"

subsection \<open>Binary floating point\<close>

text \<open>The nearest integer, a tie going to the even neighbour.\<close>

definition round_half_even :: "rat \<Rightarrow> int" where
  "round_half_even y =
     (let f = \<lfloor>y\<rfloor>; d = y - of_int f
      in if d < 1 / 2 then f
         else if 1 / 2 < d then f + 1
         else if even f then f else f + 1)"

text \<open>
  \<^verbatim>\<open>round(x, 2)\<close> on the value of a float, before the result is made a float again:
  the nearest multiple of 1/100, a tie going to the even neighbour.
\<close>

definition py_round2 :: "rat \<Rightarrow> rat" where
  "py_round2 x = of_int (round_half_even (x * 100)) / 100"

text \<open>The exponent \<open>e\<close> with \<open>2\<^sup>e \<le> |x| < 2\<^sup>e\<^sup>+\<^sup>1\<close>, for \<open>x\<close> other than 0.\<close>

definition binade :: "rat \<Rightarrow> int" where
  "binade x =
     (let e0 = bitlen \<bar>fst (quotient_of x)\<bar> - bitlen (snd (quotient_of x))
      in if 2 powi e0 \<le> \<bar>x\<bar> then e0 else e0 - 1)"

text \<open>
  The binary64 float nearest to \<open>x\<close> (53 significant bits, ties to even, subnormal below
  \<open>2\<^sup>-\<^sup>1\<^sup>0\<^sup>2\<^sup>2\<close>); \<open>None\<close> when \<open>x\<close> rounds to an infinity.
\<close>

definition binary64 :: "rat \<Rightarrow> rat option" where
  "binary64 x =
     (if x = 0 then Some 0
      else
        (let ulp = 2 powi (max (binade x) (- 1022) - 52);
             r = of_int (round_half_even (x / ulp)) * ulp
         in if 2 powi 1024 \<le> \<bar>r\<bar> then None else Some r))"

text \<open>
  \<^verbatim>\<open>round(float(item["price_usdt"]) * body.quantity, 2)\<close>. A quantity beyond the floats
  raises \<^verbatim>\<open>OverflowError\<close> in the product; an infinite price or product stays infinite
  through \<^verbatim>\<open>round\<close>, and the database driver refuses it as a parameter of the
  \<^verbatim>\<open>INSERT\<close> (\<^verbatim>\<open>ProgrammingError\<close>).
\<close>

definition order_total :: "rat \<Rightarrow> int \<Rightarrow> py_error + rat" where
  "order_total price quantity =
     (case binary64 (of_int quantity) of
        None \<Rightarrow> Inl OverflowError
      | Some q \<Rightarrow>
          (case binary64 price of
             None \<Rightarrow> Inl ProgrammingError
           | Some p \<Rightarrow>
               (case binary64 (p * q) of
                  None \<Rightarrow> Inl ProgrammingError
                | Some x \<Rightarrow>
                    (case binary64 (py_round2 x) of
                       None \<Rightarrow> Inl OverflowError
                     | Some amount \<Rightarrow> Inr amount))))"

section \<open>Marketplace: wallet\<close>

definition balance_key :: "int \<Rightarrow> string \<Rightarrow> string \<Rightarrow> balance_row \<Rightarrow> bool" where
  "balance_key uid tok net b =
     (bal_user_id b = uid \<and> bal_token b = tok \<and> bal_network b = net)"

text \<open>The five statements of \<^verbatim>\<open>confirm_deposit\<close>, in the order of the source.\<close>

definition mark_order_paid :: "string \<Rightarrow> int \<Rightarrow> store \<Rightarrow> store" where
  "mark_order_paid txh oid db =
     db\<lparr>orders := map (\<lambda>r. if order_id r = oid
                              then r\<lparr>order_status := ''paid'', order_tx_hash := Some txh\<rparr>
                              else r) (orders db)\<rparr>"

definition mark_item_sold :: "int \<Rightarrow> store \<Rightarrow> store" where
  "mark_item_sold iid db =
     db\<lparr>items := map (\<lambda>i. if item_id i = iid then i\<lparr>item_status := ''sold''\<rparr> else i)
                     (items db)\<rparr>"

text \<open>
  \<^verbatim>\<open>INSERT ... ON DUPLICATE KEY UPDATE amount = amount + %s\<close>. Modelled from the
  spec: the unique key of \<^verbatim>\<open>balances\<close> is (user, token, network) (section 3).
\<close>

definition credit_balance :: "int \<Rightarrow> string \<Rightarrow> string \<Rightarrow> rat \<Rightarrow> store \<Rightarrow> store" where
  "credit_balance uid tok net amt db =
     (case find (balance_key uid tok net) (balances db) of
        None \<Rightarrow>
          db\<lparr>balances := balances db @
               [\<lparr>bal_user_id = uid, bal_token = tok, bal_network = net, bal_amount = amt\<rparr>]\<rparr>
      | Some _ \<Rightarrow>
          db\<lparr>balances := map (\<lambda>b. if balance_key uid tok net b
                                   then b\<lparr>bal_amount := bal_amount b + amt\<rparr> else b)
                               (balances db)\<rparr>)"

definition record_deposit :: "order_row \<Rightarrow> DepositConfirm \<Rightarrow> store \<Rightarrow> store" where
  "record_deposit order body db =
     db\<lparr>transactions := transactions db @
          [\<lparr>tx_user_id = buyer_id order, tx_order_id = Some (order_id order),
            tx_type = ''deposit'', tx_amount = dc_amount body, tx_token = dc_token body,
            tx_network = dc_network body, tx_hash = Some (dc_tx_hash body)\<rparr>]\<rparr>"

definition log_event :: "int \<Rightarrow> int \<Rightarrow> string \<Rightarrow> store \<Rightarrow> store" where
  "log_event uid iid ty db =
     db\<lparr>inventory_events := inventory_events db @
          [\<lparr>ev_user_id = uid, ev_item_id = iid, event_type = ty\<rparr>]\<rparr>"

definition deposit_statements :: "order_row \<Rightarrow> DepositConfirm \<Rightarrow> (store \<Rightarrow> store) list" where
  "deposit_statements order body =
     [mark_order_paid (dc_tx_hash body) (order_id order),
      mark_item_sold (order_item_id order),
      credit_balance (buyer_id order) (dc_token body) (dc_network body) (dc_amount body),
      record_deposit order body,
      log_event (buyer_id order) (order_item_id order) ''received'']"

definition execute :: "(store \<Rightarrow> store) list \<Rightarrow> store \<Rightarrow> store" where
  "execute stmts db = fold (\<lambda>stmt d. stmt d) stmts db"

text \<open>
  \<^verbatim>\<open>confirm_deposit\<close> with an optional fault: \<open>Some k\<close> is the run in which the
  connection fails (\<^verbatim>\<open>OperationalError\<close>) once \<open>k\<close> of the five statements have been
  executed. The handler has no \<^verbatim>\<open>except\<close> and opens no transaction, so the
  statements executed before the fault stay committed.
\<close>

definition confirm_deposit_run ::
  "nat option \<Rightarrow> DepositConfirm \<Rightarrow> user \<Rightarrow> store \<Rightarrow> unit result" where
  "confirm_deposit_run fault body user db =
     (if dc_token body \<notin> VALID_TOKENS then (Inl (HTTPException 400), db)
      else if dc_network body \<notin> VALID_NETWORKS then (Inl (HTTPException 400), db)
      else case find (\<lambda>r. order_id r = dc_order_id body) (orders db) of
          None \<Rightarrow> (Inl (HTTPException 404), db)
        | Some order \<Rightarrow>
            if order_status order \<noteq> ''pending'' then (Inl (HTTPException 404), db)
            else (case fault of
                None \<Rightarrow> (Inr (), execute (deposit_statements order body) db)
              | Some k \<Rightarrow>
                  (Inl OperationalError,
                   execute (take k (deposit_statements order body)) db)))"

definition confirm_deposit :: "DepositConfirm \<Rightarrow> user \<Rightarrow> store \<Rightarrow> unit result" where
  "confirm_deposit body user db = confirm_deposit_run None body user db"

definition withdrawal_tx :: "WithdrawRequest \<Rightarrow> user \<Rightarrow> transaction_row" where
  "withdrawal_tx body user =
     \<lparr>tx_user_id = user_id user, tx_order_id = None, tx_type = ''withdrawal'',
      tx_amount = wr_amount body, tx_token = wr_token body, tx_network = wr_network body,
      tx_hash = None\<rparr>"

definition withdraw :: "WithdrawRequest \<Rightarrow> user \<Rightarrow> store \<Rightarrow> WithdrawRequest result" where
  "withdraw body user db =
     (if wr_token body \<notin> VALID_TOKENS then (Inl (HTTPException 400), db)
      else if wr_network body \<notin> VALID_NETWORKS then (Inl (HTTPException 400), db)
      else if \<not> EVM_ADDRESS_RE_match (to_address body) then (Inl (HTTPException 400), db)
      else case find (balance_key (user_id user) (wr_token body) (wr_network body))
                     (balances db) of
          None \<Rightarrow> (Inl (HTTPException 400), db)
        | Some bal \<Rightarrow>
            if bal_amount bal < wr_amount body then (Inl (HTTPException 400), db)
            else (Inr body,
                  db\<lparr>balances :=
                       map (\<lambda>b. if balance_key (user_id user) (wr_token body) (wr_network body) b
                                then b\<lparr>bal_amount := bal_amount b - wr_amount body\<rparr> else b)
                           (balances db),
                     transactions := transactions db @ [withdrawal_tx body user]\<rparr>))"


text \<open>The amount a \<^verbatim>\<open>SELECT amount FROM balances\<close> for the key fetches, if any.\<close>

definition balance_of :: "store \<Rightarrow> int \<Rightarrow> string \<Rightarrow> string \<Rightarrow> rat option" where
  "balance_of db uid tok net = map_option bal_amount (find (balance_key uid tok net) (balances db))"




section \<open>Marketplace: orders\<close>

text \<open>
  \<^verbatim>\<open>token_hex\<close> stands for the value of \<^verbatim>\<open>secrets.token_hex(20)\<close>, which the handler
  draws at random.
\<close>

definition create_order ::
  "string \<Rightarrow> OrderCreate \<Rightarrow> user \<Rightarrow> store \<Rightarrow> order_row option result" where
  "create_order token_hex body user db =
     (case find (\<lambda>i. item_id i = oc_item_id body) (items db) of
        None \<Rightarrow> (Inl (HTTPException 404), db)
      | Some item \<Rightarrow>
          if item_status item \<noteq> ''active'' then (Inl (HTTPException 409), db)
          else if seller_id item = user_id user then (Inl (HTTPException 409), db)
          else if item_quantity item < oc_quantity body then (Inl (HTTPException 400), db)
          else
            (case order_total (price_usdt item) (oc_quantity body) of
               Inl e \<Rightarrow> (Inl e, db)
             | Inr amount \<Rightarrow>
                 (let payment_addr = ''0x'' @ token_hex;
                      oid = next_id (map order_id (orders db));
                      db' = db\<lparr>orders := orders db @
                              [\<lparr>order_id = oid, buyer_id = user_id user,
                                order_item_id = item_id item,
                                order_quantity = oc_quantity body, amount_usdt = amount,
                                order_network = item_network item,
                                payment_address = payment_addr,
                                order_status = orders_status_default,
                                order_tx_hash = None\<rparr>]\<rparr>
                  in (Inr (find (\<lambda>r. order_id r = oid) (orders db')), db'))))"

definition cancel_order :: "int \<Rightarrow> user \<Rightarrow> store \<Rightarrow> unit result" where
  "cancel_order oid user db =
     (case find (\<lambda>r. order_id r = oid) (orders db) of
        None \<Rightarrow> (Inl (HTTPException 404), db)
      | Some order \<Rightarrow>
          if buyer_id order \<noteq> user_id user then (Inl (HTTPException 403), db)
          else if order_status order \<noteq> ''pending'' then (Inl (HTTPException 409), db)
          else (Inr (),
                db\<lparr>orders := map (\<lambda>r. if order_id r = oid
                                        then r\<lparr>order_status := ''cancelled''\<rparr> else r)
                                   (orders db)\<rparr>))"

section \<open>Marketplace: items\<close>

text \<open>\<^verbatim>\<open>UPDATE items SET ...\<close> over the fields of \<^verbatim>\<open>model_dump(exclude_none=True)\<close>.\<close>

definition apply_update :: "ItemUpdate \<Rightarrow> item_row \<Rightarrow> item_row" where
  "apply_update body i =
     i\<lparr>item_name := (case upd_name body of None \<Rightarrow> item_name i | Some v \<Rightarrow> v),
       price_usdt := (case upd_price_usdt body of None \<Rightarrow> price_usdt i | Some v \<Rightarrow> v),
       item_quantity := (case upd_quantity body of None \<Rightarrow> item_quantity i | Some v \<Rightarrow> v),
       item_status := (case upd_status body of None \<Rightarrow> item_status i | Some v \<Rightarrow> v)\<rparr>"

text \<open>\<^verbatim>\<open>body.status and body.status not in VALID_STATUSES\<close>: an empty string is falsy.\<close>

definition bad_status :: "string option \<Rightarrow> bool" where
  "bad_status st = (case st of None \<Rightarrow> False | Some v \<Rightarrow> v \<noteq> [] \<and> v \<notin> VALID_STATUSES)"

definition no_updates :: "ItemUpdate \<Rightarrow> bool" where
  "no_updates body =
     (upd_name body = None \<and> upd_price_usdt body = None \<and>
      upd_quantity body = None \<and> upd_status body = None)"

definition update_item :: "int \<Rightarrow> ItemUpdate \<Rightarrow> user \<Rightarrow> store \<Rightarrow> item_row option result" where
  "update_item iid body user db =
     (case find (\<lambda>i. item_id i = iid) (items db) of
        None \<Rightarrow> (Inl (HTTPException 404), db)
      | Some item \<Rightarrow>
          if seller_id item \<noteq> user_id user \<and> \<not> is_admin user
          then (Inl (HTTPException 403), db)
          else if bad_status (upd_status body) then (Inl (HTTPException 400), db)
          else if no_updates body then (Inl (HTTPException 400), db)
          else
            (let db' = db\<lparr>items := map (\<lambda>i. if item_id i = iid then apply_update body i else i)
                                        (items db)\<rparr>
             in (Inr (find (\<lambda>i. item_id i = iid) (items db')), db')))"

definition delete_item :: "int \<Rightarrow> user \<Rightarrow> store \<Rightarrow> unit result" where
  "delete_item iid user db =
     (case find (\<lambda>i. item_id i = iid) (items db) of
        None \<Rightarrow> (Inl (HTTPException 404), db)
      | Some item \<Rightarrow>
          if seller_id item \<noteq> user_id user \<and> \<not> is_admin user
          then (Inl (HTTPException 403), db)
          else if item_status item = ''sold'' then (Inl (HTTPException 409), db)
          else (Inr (),
                log_event (user_id user) iid ''cancelled''
                  (db\<lparr>items := map (\<lambda>i. if item_id i = iid
                                         then i\<lparr>item_status := ''cancelled''\<rparr> else i)
                                    (items db)\<rparr>)))"

section \<open>Marketplace: a sample database\<close>

definition sample_store :: store where
  "sample_store =
     \<lparr>items =
        [\<lparr>item_id = 1, seller_id = 1, item_name = ''Mann Co. Supply Crate Key'',
          item_type = ''key'', price_usdt = 5 / 2, item_quantity = 3,
          item_network = ''polygon'', item_status = ''active''\<rparr>,
         \<lparr>item_id = 2, seller_id = 1, item_name = ''Refined Metal'',
          item_type = ''metal'', price_usdt = 1 / 8, item_quantity = 10,
          item_network = ''bsc'', item_status = ''sold''\<rparr>,
         \<lparr>item_id = 3, seller_id = 1, item_name = ''Tour of Duty Ticket'',
          item_type = ''ticket'', price_usdt = 1 / 8, item_quantity = 10,
          item_network = ''bsc'', item_status = ''active''\<rparr>],
      orders =
        [\<lparr>order_id = 1, buyer_id = 2, order_item_id = 1, order_quantity = 2,
          amount_usdt = 5, order_network = ''polygon'',
          payment_address = ''0x00'', order_status = ''pending'', order_tx_hash = None\<rparr>],
      balances =
        [\<lparr>bal_user_id = 2, bal_token = ''USDT'', bal_network = ''polygon'', bal_amount = 10\<rparr>],
      transactions = [],
      inventory_events =
        [\<lparr>ev_user_id = 1, ev_item_id = 1, event_type = ''listed''\<rparr>,
         \<lparr>ev_user_id = 1, ev_item_id = 2, event_type = ''listed''\<rparr>,
         \<lparr>ev_user_id = 1, ev_item_id = 3, event_type = ''listed''\<rparr>]\<rparr>"

definition sample_deposit :: DepositConfirm where
  "sample_deposit =
     \<lparr>dc_order_id = 1, dc_tx_hash = ''0xabc'', dc_amount = 7,
      dc_token = ''USDT'', dc_network = ''polygon''\<rparr>"

definition alice :: user where
  "alice = \<lparr>user_id = 1, is_admin = False\<rparr>"

definition bob :: user where
  "bob = \<lparr>user_id = 2, is_admin = False\<rparr>"

definition carol :: user where
  "carol = \<lparr>user_id = 3, is_admin = False\<rparr>"

text \<open>A database with one active item of seller 1, 10 available, at the given price.\<close>

definition price_store :: "rat \<Rightarrow> store" where
  "price_store price =
     \<lparr>items =
        [\<lparr>item_id = 1, seller_id = 1, item_name = ''Refined Metal'', item_type = ''metal'',
          price_usdt = price, item_quantity = 10, item_network = ''bsc'',
          item_status = ''active''\<rparr>],
      orders = [], balances = [], transactions = [], inventory_events = []\<rparr>"


definition sample_update :: ItemUpdate where
  "sample_update =
     \<lparr>upd_name = None, upd_price_usdt = Some 9, upd_quantity = Some 1,
      upd_status = Some ''active''\<rparr>"

definition sample_order :: "int \<Rightarrow> int \<Rightarrow> OrderCreate" where
  "sample_order iid qty = \<lparr>oc_item_id = iid, oc_quantity = qty\<rparr>"

definition admin :: user where
  "admin = \<lparr>user_id = 9, is_admin = True\<rparr>"

section \<open>Watchlist service: text\<close>

text \<open>
  A Python \<^verbatim>\<open>str\<close> is the list of its code points, and \<open>str_of\<close> is the \<^verbatim>\<open>str\<close> of a
  literal. Lengths count code points, as \<^verbatim>\<open>len\<close> and the length constraints of a field
  do.
\<close>

type_synonym str = "nat list"

definition ord :: "char \<Rightarrow> nat" where
  "ord c = of_char c"

definition str_of :: "string \<Rightarrow> str" where
  "str_of s = map ord s"

text \<open>
  What the interpreter and its library (CPython 3.11) look up in tables that are not part
  of the repository. They are consulted outside ASCII only, where the functions below
  are written out: whether \<^verbatim>\<open>str.isdigit\<close> counts a character as a digit, the value
  \<^verbatim>\<open>int\<close> reads for a decimal digit (none for a digit such as superscript two), the
  lower-casing of the character at an index of a \<^verbatim>\<open>str\<close>, whether \<^verbatim>\<open>urlsplit\<close> accepts
  the host between square brackets (\<^verbatim>\<open>_check_bracketed_host\<close>), and whether it accepts
  a network location that is not ASCII (the NFKC test of \<^verbatim>\<open>_checknetloc\<close>).
\<close>

record stdlib =
  isdigit_table :: "nat \<Rightarrow> bool"
  decimal_table :: "nat \<Rightarrow> nat option"
  lower_table :: "str \<Rightarrow> nat \<Rightarrow> str"
  bracketed_host_ok :: "str \<Rightarrow> bool"
  nfkc_ok :: "str \<Rightarrow> bool"

definition isascii :: "str \<Rightarrow> bool" where
  "isascii s = list_all (\<lambda>c. c < 128) s"

text \<open>\<^verbatim>\<open>str.strip()\<close> removes the characters of \<^verbatim>\<open>str.isspace\<close> at both ends.\<close>

definition py_isspace :: "nat \<Rightarrow> bool" where
  "py_isspace c =
     ((9 \<le> c \<and> c \<le> 13) \<or> (28 \<le> c \<and> c \<le> 32) \<or> c = 133 \<or> c = 160 \<or> c = 5760 \<or>
      (8192 \<le> c \<and> c \<le> 8202) \<or> c = 8232 \<or> c = 8233 \<or> c = 8239 \<or> c = 8287 \<or> c = 12288)"

definition strip :: "str \<Rightarrow> str" where
  "strip s = rev (dropWhile py_isspace (rev (dropWhile py_isspace s)))"

definition lower :: "stdlib \<Rightarrow> str \<Rightarrow> str" where
  "lower lib s =
     concat (map (\<lambda>i. if s ! i < 128
                       then [if 65 \<le> s ! i \<and> s ! i \<le> 90 then s ! i + 32 else s ! i]
                       else lower_table lib s i) [0..<length s])"

definition is_digit :: "stdlib \<Rightarrow> nat \<Rightarrow> bool" where
  "is_digit lib c = (if c < 128 then 48 \<le> c \<and> c \<le> 57 else isdigit_table lib c)"

definition isdigit :: "stdlib \<Rightarrow> str \<Rightarrow> bool" where
  "isdigit lib s = (s \<noteq> [] \<and> list_all (is_digit lib) s)"

definition decimal :: "stdlib \<Rightarrow> nat \<Rightarrow> nat option" where
  "decimal lib c =
     (if c < 128 then (if 48 \<le> c \<and> c \<le> 57 then Some (c - 48) else None)
      else decimal_table lib c)"

text \<open>
  \<^verbatim>\<open>int(tail)\<close> on a \<^verbatim>\<open>str\<close> that passed \<^verbatim>\<open>isdigit\<close>, so without sign, underscore or
  white space: \<^verbatim>\<open>ValueError\<close> when a character has no decimal value, and when there are
  more than 4300 digits (the interpreter's default limit for the conversion).
\<close>

definition int_of_digits :: "stdlib \<Rightarrow> str \<Rightarrow> py_error + int" where
  "int_of_digits lib s =
     (if 4300 < length s then Inl ValueError
      else (case those (map (decimal lib) s) of
              None \<Rightarrow> Inl ValueError
            | Some ds \<Rightarrow> Inr (fold (\<lambda>d n. 10 * n + int d) ds 0)))"

definition endswith :: "'a list \<Rightarrow> 'a list \<Rightarrow> bool" where
  "endswith s suffix = (length suffix \<le> length s \<and> drop (length s - length suffix) s = suffix)"

text \<open>\<^verbatim>\<open>s.split(c)\<close> for a single character \<open>c\<close>.\<close>

fun split :: "'a \<Rightarrow> 'a list \<Rightarrow> 'a list list" where
  "split c [] = [[]]"
| "split c (x # xs) =
     (if x = c then [] # split c xs
      else (case split c xs of [] \<Rightarrow> [[x]] | seg # segs \<Rightarrow> (x # seg) # segs))"

text \<open>\<^verbatim>\<open>k in s\<close> for two strings.\<close>

fun contains :: "'a list \<Rightarrow> 'a list \<Rightarrow> bool" where
  "contains k [] = (k = [])"
| "contains k (c # s) = (take (length k) (c # s) = k \<or> contains k s)"

text \<open>
  A sample of the tables, for the examples: superscript one, two and three are digits
  without a decimal value, the Arabic-Indic digits are decimal digits, no other character
  outside ASCII is a digit or changes in lower case, no bracketed host is accepted and
  every other network location is.
\<close>

definition sample_unicode :: stdlib where
  "sample_unicode =
     \<lparr>isdigit_table = (\<lambda>c. c = 178 \<or> c = 179 \<or> c = 185 \<or> (1632 \<le> c \<and> c \<le> 1641)),
      decimal_table = (\<lambda>c. if 1632 \<le> c \<and> c \<le> 1641 then Some (c - 1632) else None),
      lower_table = (\<lambda>s i. [s ! i]),
      bracketed_host_ok = (\<lambda>h. False),
      nfkc_ok = (\<lambda>n. True)\<rparr>"

section \<open>Watchlist service: the table\<close>

text \<open>
  \<^verbatim>\<open>SKU_PATTERN.match(v)\<close> for \<^verbatim>\<open>^[0-9]+;[0-9]+(;[A-Za-z0-9\-]+)*$\<close>: the \<^verbatim>\<open>$\<close> also
  matches before a line feed that ends the string.
\<close>

definition sku_digit :: "nat \<Rightarrow> bool" where
  "sku_digit c = (48 \<le> c \<and> c \<le> 57)"

definition sku_word :: "nat \<Rightarrow> bool" where
  "sku_word c = ((65 \<le> c \<and> c \<le> 90) \<or> (97 \<le> c \<and> c \<le> 122) \<or> (48 \<le> c \<and> c \<le> 57) \<or> c = 45)"

definition SKU_PATTERN_match :: "str \<Rightarrow> bool" where
  "SKU_PATTERN_match v =
     (case split (ord CHR '';'') (if v \<noteq> [] \<and> last v = 10 then butlast v else v) of
        a # b # rest \<Rightarrow>
          a \<noteq> [] \<and> list_all sku_digit a \<and> b \<noteq> [] \<and> list_all sku_digit b \<and>
          list_all (\<lambda>seg. seg \<noteq> [] \<and> list_all sku_word seg) rest
      | _ \<Rightarrow> False)"

definition validate_sku :: "str \<Rightarrow> py_error + str" where
  "validate_sku v = (if SKU_PATTERN_match (strip v) then Inr (strip v) else Inl ValueError)"

definition validate_name :: "str \<Rightarrow> py_error + str" where
  "validate_name v = (if contains (str_of ''  '') (strip v) then Inl ValueError else Inr (strip v))"

record WatchlistCreate =
  sku :: str
  name :: str
  target_price_ref :: rat
  wl_note :: "str option"

text \<open>\<^verbatim>\<open>class WatchlistItem(WatchlistCreate)\<close> adds the field \<^verbatim>\<open>id\<close>.\<close>

record WatchlistItem = WatchlistCreate +
  watch_id :: int

text \<open>
  Building a \<^verbatim>\<open>WatchlistCreate\<close> or a \<^verbatim>\<open>WatchlistItem\<close> from values of the right types
  validates the four fields: the constraints of each \<^verbatim>\<open>Field\<close> on the value as given,
  then the \<^verbatim>\<open>field_validator\<close> of the field, whose result becomes the field. Any failure
  is a \<^verbatim>\<open>ValidationError\<close>. The price is the exact value of the float.
\<close>

definition model_validate :: "str \<Rightarrow> str \<Rightarrow> rat \<Rightarrow> str option \<Rightarrow> py_error + WatchlistCreate" where
  "model_validate sku0 name0 price note0 =
     (if length sku0 < 3 \<or> 64 < length sku0 then Inl ValidationError
      else (case validate_sku sku0 of
              Inl e \<Rightarrow> Inl ValidationError
            | Inr s \<Rightarrow>
                if length name0 < 2 \<or> 120 < length name0 then Inl ValidationError
                else (case validate_name name0 of
                        Inl e \<Rightarrow> Inl ValidationError
                      | Inr n \<Rightarrow>
                          if price \<le> 0 \<or> 100000 < price then Inl ValidationError
                          else if (case note0 of None \<Rightarrow> False | Some t \<Rightarrow> 300 < length t)
                          then Inl ValidationError
                          else Inr \<lparr>sku = s, name = n, target_price_ref = price,
                                    wl_note = note0\<rparr>)))"

text \<open>A row of \<^verbatim>\<open>watchlist\<close>: id, sku, name, target_price_ref, note.\<close>

type_synonym watchlist_row = "int \<times> str \<times> str \<times> rat \<times> str option"

definition row_id :: "watchlist_row \<Rightarrow> int" where
  "row_id row = fst row"

definition row_sku :: "watchlist_row \<Rightarrow> str" where
  "row_sku row = fst (snd row)"

text \<open>\<^verbatim>\<open>row_to_item\<close> builds a \<^verbatim>\<open>WatchlistItem\<close>, which validates the fields of the row.\<close>

definition row_to_item :: "watchlist_row \<Rightarrow> py_error + WatchlistItem" where
  "row_to_item row =
     (case row of (r0, r1, r2, r3, r4) \<Rightarrow>
        (case model_validate r1 r2 r3 r4 of
           Inl e \<Rightarrow> Inl e
         | Inr v \<Rightarrow> Inr \<lparr>sku = sku v, name = name v, target_price_ref = target_price_ref v,
                          wl_note = wl_note v, watch_id = r0\<rparr>))"

text \<open>
  The SQLite table of \<^verbatim>\<open>startup\<close>: \<^verbatim>\<open>id INTEGER PRIMARY KEY AUTOINCREMENT\<close> and
  \<^verbatim>\<open>sku TEXT NOT NULL UNIQUE\<close>. \<open>sqlite_sequence\<close> is the largest id the table has ever
  held; an insert takes the next id above it and above every id present, and is refused
  (\<^verbatim>\<open>SQLITE_FULL\<close>, an \<^verbatim>\<open>OperationalError\<close>) once the largest 64-bit id has been used.
  Text and numbers are read back as they were stored.
\<close>

record watchlist_db =
  watchlist :: "watchlist_row list"
  sqlite_sequence :: int

definition create_item ::
  "WatchlistCreate \<Rightarrow> watchlist_db \<Rightarrow> (py_error + WatchlistItem) \<times> watchlist_db" where
  "create_item payload db =
     (let top = max (sqlite_sequence db) (fold max (map row_id (watchlist db)) 0)
      in if 9223372036854775807 \<le> top then (Inl OperationalError, db)
         else if sku payload \<in> set (map row_sku (watchlist db))
         then (Inl (HTTPException 409), db)
         else
           (let iid = top + 1;
                db' = db\<lparr>watchlist := watchlist db @
                            [(iid, sku payload, name payload, target_price_ref payload,
                              wl_note payload)],
                          sqlite_sequence := iid\<rparr>
            in case find (\<lambda>row. row_id row = iid) (watchlist db') of
                 None \<Rightarrow> (Inl TypeError, db')
               | Some row \<Rightarrow>
                   (case row_to_item row of
                      Inl e \<Rightarrow> (Inl e, db')
                    | Inr item \<Rightarrow> (Inr item, db'))))"

definition get_item :: "int \<Rightarrow> watchlist_db \<Rightarrow> (py_error + WatchlistItem) \<times> watchlist_db" where
  "get_item iid db =
     (case find (\<lambda>row. row_id row = iid) (watchlist db) of
        None \<Rightarrow> (Inl (HTTPException 404), db)
      | Some row \<Rightarrow>
          (case row_to_item row of
             Inl e \<Rightarrow> (Inl e, db)
           | Inr item \<Rightarrow> (Inr item, db)))"

definition sample_watchlist :: watchlist_db where
  "sample_watchlist =
     \<lparr>watchlist = [(1, str_of ''5021;6'', str_of ''Mann Co. Supply Crate Key'', 80, None),
                   (4, str_of ''721;5;u89'', str_of ''Conquistador'', 1200,
                    Some (str_of ''unusual''))],
      sqlite_sequence = 6\<rparr>"

section \<open>Watchlist service: stats URL parser\<close>

definition QUALITY_NAME_TO_ID :: "(str \<times> int) list" where
  "QUALITY_NAME_TO_ID =
     [(str_of ''Unique'', 6), (str_of ''Genuine'', 1), (str_of ''Vintage'', 3),
      (str_of ''Unusual'', 5), (str_of ''Strange'', 11), (str_of ''Haunted'', 13),
      (str_of ''Collector's'', 14), (str_of ''Collectors'', 14), (str_of ''Decorated'', 15)]"

text \<open>
  \<^verbatim>\<open>urllib.parse.unquote_to_bytes\<close> on ASCII text: the text is split at \<^verbatim>\<open>%\<close>, and each
  piece after the first starts with the byte of its two hexadecimal digits, or keeps its
  \<^verbatim>\<open>%\<close> when it does not start with two of them.
\<close>

definition hex_value :: "nat \<Rightarrow> nat option" where
  "hex_value c =
     (if 48 \<le> c \<and> c \<le> 57 then Some (c - 48)
      else if 65 \<le> c \<and> c \<le> 70 then Some (c - 55)
      else if 97 \<le> c \<and> c \<le> 102 then Some (c - 87)
      else None)"

definition hextobyte :: "str \<Rightarrow> nat option" where
  "hextobyte s =
     (case s of
        [a, b] \<Rightarrow> (case hex_value a of
                     None \<Rightarrow> None
                   | Some x \<Rightarrow> (case hex_value b of None \<Rightarrow> None | Some y \<Rightarrow> Some (16 * x + y)))
      | _ \<Rightarrow> None)"

definition unquote_to_bytes :: "str \<Rightarrow> nat list" where
  "unquote_to_bytes s =
     (case split (ord CHR ''%'') s of
        [] \<Rightarrow> []
      | b # bits \<Rightarrow>
          b @ concat (map (\<lambda>item. case hextobyte (take 2 item) of
                                     Some byte \<Rightarrow> byte # drop 2 item
                                   | None \<Rightarrow> ord CHR ''%'' # item) bits))"

text \<open>
  \<^verbatim>\<open>bytes.decode('utf-8', 'replace')\<close>: a well-formed sequence is its code point; a byte
  that cannot start one, and each longest prefix of a sequence that is cut short, becomes
  U+FFFD.
\<close>

definition continuation :: "nat \<Rightarrow> bool" where
  "continuation b = (128 \<le> b \<and> b \<le> 191)"

definition second_byte :: "nat \<Rightarrow> nat \<Rightarrow> bool" where
  "second_byte b c =
     (if b = 224 then 160 \<le> c \<and> c \<le> 191
      else if b = 237 then 128 \<le> c \<and> c \<le> 159
      else if b = 240 then 144 \<le> c \<and> c \<le> 191
      else if b = 244 then 128 \<le> c \<and> c \<le> 143
      else continuation c)"

fun utf8_decode :: "nat list \<Rightarrow> str" where
  "utf8_decode [] = []"
| "utf8_decode (b # bs) =
     (if b < 128 then b # utf8_decode bs
      else if 194 \<le> b \<and> b \<le> 223 then
        (case bs of
           [] \<Rightarrow> [65533]
         | c1 # r1 \<Rightarrow>
             if continuation c1 then ((b - 192) * 64 + (c1 - 128)) # utf8_decode r1
             else 65533 # utf8_decode bs)
      else if 224 \<le> b \<and> b \<le> 239 then
        (case bs of
           [] \<Rightarrow> [65533]
         | c1 # r1 \<Rightarrow>
             if second_byte b c1 then
               (case r1 of
                  [] \<Rightarrow> [65533]
                | c2 # r2 \<Rightarrow>
                    if continuation c2
                    then ((b - 224) * 4096 + (c1 - 128) * 64 + (c2 - 128)) # utf8_decode r2
                    else 65533 # utf8_decode r1)
             else 65533 # utf8_decode bs)
      else if 240 \<le> b \<and> b \<le> 244 then
        (case bs of
           [] \<Rightarrow> [65533]
         | c1 # r1 \<Rightarrow>
             if second_byte b c1 then
               (case r1 of
                  [] \<Rightarrow> [65533]
                | c2 # r2 \<Rightarrow>
                    if continuation c2 then
                      (case r2 of
                         [] \<Rightarrow> [65533]
                       | c3 # r3 \<Rightarrow>
                           if continuation c3
                           then ((b - 240) * 262144 + (c1 - 128) * 4096 + (c2 - 128) * 64 +
                                 (c3 - 128)) # utf8_decode r3
                           else 65533 # utf8_decode r2)
                    else 65533 # utf8_decode r1)
             else 65533 # utf8_decode bs)
      else 65533 # utf8_decode bs)"

text \<open>
  \<^verbatim>\<open>urllib.parse.unquote\<close>: a \<^verbatim>\<open>str\<close> without \<^verbatim>\<open>%\<close> is returned as it is; otherwise every
  longest run of ASCII characters (\<open>run\<close>, up to the character reached) is replaced by
  the decoding of its bytes, and the characters between the runs stay.
\<close>

fun unquote_bits :: "str \<Rightarrow> str \<Rightarrow> str" where
  "unquote_bits run [] = utf8_decode (unquote_to_bytes run)"
| "unquote_bits run (c # s) =
     (if c < 128 then unquote_bits (run @ [c]) s
      else utf8_decode (unquote_to_bytes run) @ c # unquote_bits [] s)"

definition unquote :: "str \<Rightarrow> str" where
  "unquote s = (if ord CHR ''%'' \<in> set s then unquote_bits [] s else s)"

text \<open>
  \<^verbatim>\<open>urllib.parse.urlparse\<close>, as far as \<^verbatim>\<open>netloc\<close> and \<^verbatim>\<open>path\<close> go: \<^verbatim>\<open>urlsplit\<close> strips
  leading control characters and spaces, removes tabs and line ends, splits the scheme and
  the network location off and raises \<^verbatim>\<open>ValueError\<close> on a network location it refuses;
  the path loses its query and fragment, and the parameters of its last segment for the
  schemes of \<^verbatim>\<open>uses_params\<close>.
\<close>

definition scheme_chars :: str where
  "scheme_chars = str_of ''abcdefghijklmnopqrstuvwxyzABCDEFGHIJKLMNOPQRSTUVWXYZ0123456789+-.''"

definition ascii_isalpha :: "nat \<Rightarrow> bool" where
  "ascii_isalpha c = ((97 \<le> c \<and> c \<le> 122) \<or> (65 \<le> c \<and> c \<le> 90))"

definition uses_params :: "str list" where
  "uses_params =
     map str_of ['''', ''ftp'', ''hdl'', ''prospero'', ''http'', ''imap'', ''https'', ''shttp'',
       ''rtsp'', ''rtsps'', ''rtspu'', ''sip'', ''sips'', ''mms'', ''sftp'', ''tel'']"

definition split_scheme :: "stdlib \<Rightarrow> str \<Rightarrow> str \<times> str" where
  "split_scheme lib url =
     (let pre = takeWhile (\<lambda>c. c \<noteq> ord CHR '':'') url
      in if ord CHR '':'' \<in> set url \<and> pre \<noteq> [] \<and> ascii_isalpha (hd url) \<and>
            list_all (\<lambda>c. c \<in> set scheme_chars) pre
         then (lower lib pre, drop (length pre + 1) url)
         else ([], url))"

definition splitnetloc :: "str \<Rightarrow> str \<times> str" where
  "splitnetloc url =
     (takeWhile (\<lambda>c. c \<notin> set (str_of ''/?#'')) (drop 2 url),
      dropWhile (\<lambda>c. c \<notin> set (str_of ''/?#'')) (drop 2 url))"

definition checknetloc :: "stdlib \<Rightarrow> str \<Rightarrow> bool" where
  "checknetloc lib netloc = (netloc = [] \<or> isascii netloc \<or> nfkc_ok lib netloc)"

definition urlsplit :: "stdlib \<Rightarrow> str \<Rightarrow> py_error + str \<times> str \<times> str" where
  "urlsplit lib url0 =
     (let url1 = dropWhile (\<lambda>c. c \<le> 32) url0;
          url2 = filter (\<lambda>c. c \<notin> {9, 10, 13}) url1;
          (scheme, url3) = split_scheme lib url2;
          (netloc, url4) = (if take 2 url3 = str_of ''//'' then splitnetloc url3 else ([], url3));
          opening = (ord CHR ''['' \<in> set netloc);
          closing = (ord CHR '']'' \<in> set netloc);
          bracketed_host = takeWhile (\<lambda>c. c \<noteq> ord CHR '']'')
                             (drop 1 (dropWhile (\<lambda>c. c \<noteq> ord CHR ''['') netloc))
      in if opening \<noteq> closing then Inl ValueError
         else if opening \<and> closing \<and> \<not> bracketed_host_ok lib bracketed_host then Inl ValueError
         else if \<not> checknetloc lib netloc then Inl ValueError
         else Inr (scheme, netloc,
                   takeWhile (\<lambda>c. c \<noteq> ord CHR ''?'')
                     (takeWhile (\<lambda>c. c \<noteq> ord CHR ''#'') url4)))"

definition splitparams :: "str \<Rightarrow> str" where
  "splitparams url =
     (let last_seg = rev (takeWhile (\<lambda>c. c \<noteq> ord CHR ''/'') (rev url));
          front = take (length url - length last_seg) url
      in front @ takeWhile (\<lambda>c. c \<noteq> ord CHR '';'') last_seg)"

definition urlparse :: "stdlib \<Rightarrow> str \<Rightarrow> py_error + str \<times> str" where
  "urlparse lib url =
     (case urlsplit lib url of
        Inl e \<Rightarrow> Inl e
      | Inr (scheme, netloc, path) \<Rightarrow>
          Inr (netloc,
               if scheme \<in> set uses_params \<and> ord CHR '';'' \<in> set path
               then splitparams path else path))"

record stats_query =
  sq_item_name :: str
  sq_quality :: "int option"
  sq_tradable :: int
  sq_craftable :: int
  sq_particle :: "int option"
  sq_quality_name :: str
  sq_tradable_seg :: str
  sq_craftable_seg :: str

text \<open>The non-empty segments of the path, once the host has been accepted.\<close>

definition stats_url_parts :: "stdlib \<Rightarrow> str \<Rightarrow> py_error + str list" where
  "stats_url_parts lib stats_url =
     (case urlparse lib (strip stats_url) of
        Inl e \<Rightarrow> Inl e
      | Inr (netloc, path) \<Rightarrow>
          if endswith netloc (str_of ''backpack.tf'')
          then Inr (filter (\<lambda>seg. seg \<noteq> []) (split (ord CHR ''/'') path))
          else Inl (HTTPException 422))"

definition parse_bptf_stats_url :: "stdlib \<Rightarrow> str \<Rightarrow> py_error + stats_query" where
  "parse_bptf_stats_url lib stats_url =
     (case stats_url_parts lib stats_url of
        Inl e \<Rightarrow> Inl e
      | Inr parts \<Rightarrow>
          if length parts < 5 \<or> parts ! 0 \<noteq> str_of ''stats'' then Inl (HTTPException 422)
          else
            (let quality_name = unquote (parts ! 1);
                 item_name = unquote (parts ! 2);
                 tradable_seg = unquote (parts ! 3);
                 craftable_seg = unquote (parts ! 4);
                 tradable = (if lower lib tradable_seg = str_of ''tradable'' then 1 else 0);
                 craftable = (if lower lib craftable_seg = str_of ''craftable'' then 1 else 0);
                 quality = map_of QUALITY_NAME_TO_ID quality_name
             in case (if 6 \<le> length parts \<and> isdigit lib (unquote (parts ! 5))
                      then (case int_of_digits lib (unquote (parts ! 5)) of
                              Inl e \<Rightarrow> Inl e
                            | Inr n \<Rightarrow> Inr (Some n))
                      else Inr None) of
                  Inl e \<Rightarrow> Inl e
                | Inr particle \<Rightarrow>
                    Inr \<lparr>sq_item_name = item_name, sq_quality = quality,
                         sq_tradable = tradable, sq_craftable = craftable,
                         sq_particle = particle, sq_quality_name = quality_name,
                         sq_tradable_seg = tradable_seg, sq_craftable_seg = craftable_seg\<rparr>))"

definition example_stats_url :: str where
  "example_stats_url =
     str_of ''https://backpack.tf/stats/Unusual/Conquistador/Tradable/Craftable/89''"

section \<open>Watchlist service: listings normaliser\<close>

text \<open>
  A decoded JSON value (\<^verbatim>\<open>r.json()\<close>). A number is a Python \<^verbatim>\<open>int\<close> or a finite
  \<^verbatim>\<open>float\<close>, the latter with its exact value; an object is the list of its items in
  insertion order, its keys distinct.
\<close>

datatype json =
    JNull
  | JBool bool
  | JInt int
  | JFloat rat
  | JStr string
  | JList "json list"
  | JDict "(string \<times> json) list"

fun is_dict :: "json \<Rightarrow> bool" where
  "is_dict (JDict _) = True"
| "is_dict _ = False"

fun is_list :: "json \<Rightarrow> bool" where
  "is_list (JList _) = True"
| "is_list _ = False"

text \<open>\<^verbatim>\<open>isinstance(x, int)\<close>: in Python \<^verbatim>\<open>bool\<close> is a subclass of \<^verbatim>\<open>int\<close>.\<close>

fun is_int :: "json \<Rightarrow> bool" where
  "is_int (JInt _) = True"
| "is_int (JBool _) = True"
| "is_int _ = False"

text \<open>The value of a number (\<^verbatim>\<open>True\<close> is 1, \<^verbatim>\<open>False\<close> is 0).\<close>

fun num_of :: "json \<Rightarrow> rat option" where
  "num_of (JInt n) = Some (of_int n)"
| "num_of (JFloat x) = Some x"
| "num_of (JBool b) = Some (if b then 1 else 0)"
| "num_of _ = None"

fun truthy :: "json \<Rightarrow> bool" where
  "truthy JNull = False"
| "truthy (JBool b) = b"
| "truthy (JInt n) = (n \<noteq> 0)"
| "truthy (JFloat x) = (x \<noteq> 0)"
| "truthy (JStr s) = (s \<noteq> [])"
| "truthy (JList xs) = (xs \<noteq> [])"
| "truthy (JDict kvs) = (kvs \<noteq> [])"

text \<open>\<^verbatim>\<open>d.get(k)\<close> on a dictionary: the value, or \<^verbatim>\<open>None\<close>.\<close>

fun get_or_null :: "json \<Rightarrow> string \<Rightarrow> json" where
  "get_or_null (JDict kvs) k = (case map_of kvs k of None \<Rightarrow> JNull | Some v \<Rightarrow> v)"
| "get_or_null _ k = JNull"

text \<open>\<^verbatim>\<open>x.get(k)\<close>: only a dictionary has the method.\<close>

definition dict_get :: "json \<Rightarrow> string \<Rightarrow> py_error + json" where
  "dict_get x k = (if is_dict x then Inr (get_or_null x k) else Inl AttributeError)"

fun contains_str :: "string \<Rightarrow> string \<Rightarrow> bool" where
  "contains_str k [] = (k = [])"
| "contains_str k (c # s) = (take (length k) (c # s) = k \<or> contains_str k s)"

text \<open>
  \<^verbatim>\<open>k in x\<close> for a string \<open>k\<close>: a key of a dictionary, an element of a list, a substring
  of a string; \<^verbatim>\<open>TypeError\<close> on a value that is not a container.
\<close>

fun py_in :: "string \<Rightarrow> json \<Rightarrow> py_error + bool" where
  "py_in k (JDict kvs) = Inr (k \<in> set (map fst kvs))"
| "py_in k (JList xs) = Inr (JStr k \<in> set xs)"
| "py_in k (JStr s) = Inr (contains_str k s)"
| "py_in k _ = Inl TypeError"

fun as_list :: "json \<Rightarrow> json list" where
  "as_list (JList xs) = xs"
| "as_list (JDict kvs) = map snd kvs"
| "as_list _ = []"

text \<open>\<^verbatim>\<open>return as_list(x.get("listings"))\<close>.\<close>

definition listings_of :: "json \<Rightarrow> py_error + json list" where
  "listings_of x =
     (case dict_get x ''listings'' of Inl e \<Rightarrow> Inl e | Inr v \<Rightarrow> Inr (as_list v))"

text \<open>
  The branch shared by \<^verbatim>\<open>results\<close> and by the \<^verbatim>\<open>results\<close> of the \<^verbatim>\<open>data\<close> wrapper, for
  a dictionary: its \<^verbatim>\<open>listings\<close>, else its values.
\<close>

definition results_dict :: "json \<Rightarrow> py_error + json list" where
  "results_dict results =
     (case py_in ''listings'' results of
        Inl e \<Rightarrow> Inl e
      | Inr True \<Rightarrow> listings_of results
      | Inr False \<Rightarrow> Inr (as_list results))"

definition extract_wrapper :: "json \<Rightarrow> py_error + json list" where
  "extract_wrapper wrapper =
     (if is_dict wrapper then
        (case py_in ''listings'' wrapper of
           Inl e \<Rightarrow> Inl e
         | Inr True \<Rightarrow> listings_of wrapper
         | Inr False \<Rightarrow>
             (case py_in ''results'' wrapper of
                Inl e \<Rightarrow> Inl e
              | Inr True \<Rightarrow>
                  (case dict_get wrapper ''results'' of
                     Inl e \<Rightarrow> Inl e
                   | Inr r2 \<Rightarrow>
                       if is_list r2 then Inr (as_list r2)
                       else if is_dict r2 then results_dict r2
                       else Inr [])
              | Inr False \<Rightarrow> Inr []))
      else if is_list wrapper then Inr (as_list wrapper)
      else Inr [])"

definition extract_listings :: "json \<Rightarrow> py_error + json list" where
  "extract_listings data =
     (if \<not> is_dict data then Inr []
      else case py_in ''listings'' data of
          Inl e \<Rightarrow> Inl e
        | Inr True \<Rightarrow> listings_of data
        | Inr False \<Rightarrow>
            (case dict_get data ''results'' of
               Inl e \<Rightarrow> Inl e
             | Inr results \<Rightarrow>
                 if is_list results then Inr (as_list results)
                 else if is_dict results then results_dict results
                 else (case dict_get data ''data'' of
                         Inl e \<Rightarrow> Inl e
                       | Inr wrapper \<Rightarrow> extract_wrapper wrapper)))"

subsection \<open>Python comparisons\<close>

text \<open>\<^verbatim>\<open>a == b\<close>: never raises; numbers compare by value across \<^verbatim>\<open>bool\<close>, \<^verbatim>\<open>int\<close>, \<^verbatim>\<open>float\<close>.\<close>

fun py_eq :: "json \<Rightarrow> json \<Rightarrow> bool"
  and py_eq_list :: "json list \<Rightarrow> json list \<Rightarrow> bool"
  and py_eq_items :: "(string \<times> json) list \<Rightarrow> (string \<times> json) list \<Rightarrow> bool" where
  "py_eq JNull JNull = True"
| "py_eq (JStr a) (JStr b) = (a = b)"
| "py_eq (JList xs) (JList ys) = py_eq_list xs ys"
| "py_eq (JDict a) (JDict b) = (length a = length b \<and> py_eq_items a b)"
| "py_eq a b = (case (num_of a, num_of b) of (Some x, Some y) \<Rightarrow> x = y | _ \<Rightarrow> False)"
| "py_eq_list [] [] = True"
| "py_eq_list (x # xs) (y # ys) = (py_eq x y \<and> py_eq_list xs ys)"
| "py_eq_list _ _ = False"
| "py_eq_items [] b = True"
| "py_eq_items ((k, v) # a) b =
     ((case map_of b k of None \<Rightarrow> False | Some v' \<Rightarrow> py_eq v v') \<and> py_eq_items a b)"

fun str_lt :: "string \<Rightarrow> string \<Rightarrow> bool" where
  "str_lt [] [] = False"
| "str_lt [] (b # bs) = True"
| "str_lt (a # as) [] = False"
| "str_lt (a # as) (b # bs) =
     (if a = b then str_lt as bs else (of_char a :: nat) < of_char b)"

text \<open>
  \<^verbatim>\<open>a < b\<close>: numbers by value, strings and lists lexicographically, \<^verbatim>\<open>TypeError\<close>
  otherwise.
\<close>

fun py_lt :: "json \<Rightarrow> json \<Rightarrow> py_error + bool"
  and py_lt_list :: "json list \<Rightarrow> json list \<Rightarrow> py_error + bool" where
  "py_lt (JStr a) (JStr b) = Inr (str_lt a b)"
| "py_lt (JList xs) (JList ys) = py_lt_list xs ys"
| "py_lt a b = (case (num_of a, num_of b) of (Some x, Some y) \<Rightarrow> Inr (x < y) | _ \<Rightarrow> Inl TypeError)"
| "py_lt_list [] [] = Inr False"
| "py_lt_list [] (y # ys) = Inr True"
| "py_lt_list (x # xs) [] = Inr False"
| "py_lt_list (x # xs) (y # ys) = (if py_eq x y then py_lt_list xs ys else py_lt x y)"

text \<open>Tuples of two: the first components that differ decide.\<close>

fun tuple_lt :: "json \<times> json \<Rightarrow> json \<times> json \<Rightarrow> py_error + bool" where
  "tuple_lt (a, b) (c, d) =
     (if \<not> py_eq a c then py_lt a c else if \<not> py_eq b d then py_lt b d else Inr False)"

fun tuple_gt :: "json \<times> json \<Rightarrow> json \<times> json \<Rightarrow> py_error + bool" where
  "tuple_gt (a, b) (c, d) =
     (if \<not> py_eq a c then py_lt c a else if \<not> py_eq b d then py_lt d b else Inr False)"

subsection \<open>Partition and best prices\<close>

record price =
  keys :: json
  metal :: json

text \<open>\<^verbatim>\<open>if isinstance(intent, int): intent = "buy" if intent == 0 else "sell"\<close>.\<close>

definition normalize_intent :: "json \<Rightarrow> json" where
  "normalize_intent intent =
     (if is_int intent then (if py_eq intent (JInt 0) then JStr ''buy'' else JStr ''sell'')
      else intent)"

text \<open>\<^verbatim>\<open>cur = lst.get("currencies") or {}\<close> and the price read from it.\<close>

definition listing_price :: "json \<Rightarrow> py_error + price" where
  "listing_price lst =
     (case dict_get lst ''currencies'' of
        Inl e \<Rightarrow> Inl e
      | Inr c \<Rightarrow>
          (let cur = (if truthy c then c else JDict [])
           in case dict_get cur ''keys'' of
                Inl e \<Rightarrow> Inl e
              | Inr k \<Rightarrow>
                  (case dict_get cur ''metal'' of
                     Inl e \<Rightarrow> Inl e
                   | Inr m \<Rightarrow> Inr \<lparr>keys = k, metal = m\<rparr>)))"

text \<open>The loop over the listings, with the two lists it appends to.\<close>

fun partition_listings ::
  "json list \<Rightarrow> price list \<Rightarrow> price list \<Rightarrow> py_error + price list \<times> price list" where
  "partition_listings [] sells buys = Inr (sells, buys)"
| "partition_listings (lst # rest) sells buys =
     (case dict_get lst ''intent'' of
        Inl e \<Rightarrow> Inl e
      | Inr i \<Rightarrow>
          (case listing_price lst of
             Inl e \<Rightarrow> Inl e
           | Inr p \<Rightarrow>
               if py_eq (normalize_intent i) (JStr ''sell'')
               then partition_listings rest (sells @ [p]) buys
               else if py_eq (normalize_intent i) (JStr ''buy'')
               then partition_listings rest sells (buys @ [p])
               else partition_listings rest sells buys))"

definition sort_key :: "price \<Rightarrow> json \<times> json" where
  "sort_key p =
     (if keys p \<noteq> JNull then keys p else JInt (10 ^ 9),
      if metal p \<noteq> JNull then metal p else JInt (10 ^ 9))"

text \<open>
  \<^verbatim>\<open>min(sells, key=sort_key)\<close> and \<^verbatim>\<open>max(buys, key=sort_key)\<close>: the candidate is
  replaced when the next element is strictly smaller (greater), so the first of several
  best elements is returned.
\<close>

fun py_min :: "price \<Rightarrow> price list \<Rightarrow> py_error + price" where
  "py_min best [] = Inr best"
| "py_min best (p # ps) =
     (case tuple_lt (sort_key p) (sort_key best) of
        Inl e \<Rightarrow> Inl e
      | Inr b \<Rightarrow> py_min (if b then p else best) ps)"

fun py_max :: "price \<Rightarrow> price list \<Rightarrow> py_error + price" where
  "py_max best [] = Inr best"
| "py_max best (p # ps) =
     (case tuple_gt (sort_key p) (sort_key best) of
        Inl e \<Rightarrow> Inl e
      | Inr b \<Rightarrow> py_max (if b then p else best) ps)"

definition lowest :: "price list \<Rightarrow> py_error + price option" where
  "lowest sells =
     (case sells of [] \<Rightarrow> Inr None
      | p # ps \<Rightarrow> (case py_min p ps of Inl e \<Rightarrow> Inl e | Inr best \<Rightarrow> Inr (Some best)))"

definition highest :: "price list \<Rightarrow> py_error + price option" where
  "highest buys =
     (case buys of [] \<Rightarrow> Inr None
      | p # ps \<Rightarrow> (case py_max p ps of Inl e \<Rightarrow> Inl e | Inr best \<Rightarrow> Inr (Some best)))"

record listings_summary =
  sell_count :: nat
  buy_count :: nat
  lowest_sell :: "price option"
  highest_buy :: "price option"

text \<open>
  \<^verbatim>\<open>market_listings\<close> from \<^verbatim>\<open>data = r.json()\<close> on: the request to the upstream API is
  outside the model, and of the response the counts and the two best prices are kept.
\<close>

definition market_listings :: "json \<Rightarrow> py_error + listings_summary" where
  "market_listings data =
     (case extract_listings data of
        Inl e \<Rightarrow> Inl e
      | Inr listings \<Rightarrow>
          (case partition_listings listings [] [] of
             Inl e \<Rightarrow> Inl e
           | Inr (sells, buys) \<Rightarrow>
               (case lowest sells of
                  Inl e \<Rightarrow> Inl e
                | Inr lo \<Rightarrow>
                    (case highest buys of
                       Inl e \<Rightarrow> Inl e
                     | Inr hi \<Rightarrow>
                         Inr \<lparr>sell_count = length sells, buy_count = length buys,
                              lowest_sell = lo, highest_buy = hi\<rparr>))))"

definition example_payload :: json where
  "example_payload =
     JDict [(''results'',
       JDict [(''listings'',
         JList [JDict [(''intent'', JInt 0),
                       (''currencies'', JDict [(''keys'', JInt 1), (''metal'', JInt 10)])],
                JDict [(''intent'', JStr ''sell''),
                       (''currencies'', JDict [(''metal'', JInt 5)])]])])]"

definition sentinel_payload :: json where
  "sentinel_payload =
     JDict [(''listings'',
       JList [JDict [(''intent'', JStr ''sell''),
                     (''currencies'', JDict [(''metal'', JInt 5)])],
              JDict [(''intent'', JStr ''sell''),
                     (''currencies'', JDict [(''keys'', JInt 2000000000), (''metal'', JInt 1)])]])]"

subsection \<open>The normaliser in the words of the specification\<close>

datatype side = Buy | Sell

text \<open>
  The side of an intent: buy for the integer 0 and the string \<^verbatim>\<open>buy\<close>, sell for any other
  integer and the string \<^verbatim>\<open>sell\<close>, none otherwise. Python's \<^verbatim>\<open>False\<close> and \<^verbatim>\<open>True\<close> are
  the integers 0 and 1.
\<close>

fun intent_side :: "json \<Rightarrow> side option" where
  "intent_side (JInt n) = Some (if n = 0 then Buy else Sell)"
| "intent_side (JBool b) = Some (if b then Sell else Buy)"
| "intent_side (JStr s) =
     (if s = ''buy'' then Some Buy else if s = ''sell'' then Some Sell else None)"
| "intent_side _ = None"

definition side_of :: "json \<Rightarrow> side option" where
  "side_of lst = intent_side (get_or_null lst ''intent'')"

definition price_of :: "json \<Rightarrow> price" where
  "price_of lst =
     \<lparr>keys = get_or_null (get_or_null lst ''currencies'') ''keys'',
      metal = get_or_null (get_or_null lst ''currencies'') ''metal''\<rparr>"

definition sells_of :: "json list \<Rightarrow> price list" where
  "sells_of ls = map price_of (filter (\<lambda>lst. side_of lst = Some Sell) ls)"

definition buys_of :: "json list \<Rightarrow> price list" where
  "buys_of ls = map price_of (filter (\<lambda>lst. side_of lst = Some Buy) ls)"

text \<open>
  A listing of the expected shape: an object whose \<^verbatim>\<open>currencies\<close> are an object, or are
  missing or falsy.
\<close>

definition well_shaped :: "json \<Rightarrow> bool" where
  "well_shaped lst =
     (is_dict lst \<and>
      (if truthy (get_or_null lst ''currencies'') then is_dict (get_or_null lst ''currencies'')
       else True))"

fun number_or_null :: "json \<Rightarrow> bool" where
  "number_or_null JNull = True"
| "number_or_null x = (num_of x \<noteq> None)"

definition numeric_price :: "price \<Rightarrow> bool" where
  "numeric_price p = (number_or_null (keys p) \<and> number_or_null (metal p))"

text \<open>The value a component is compared by: a missing one counts as \<open>10\<^sup>9\<close>.\<close>

fun key_value :: "json \<Rightarrow> rat" where
  "key_value JNull = 10 ^ 9"
| "key_value x = (case num_of x of None \<Rightarrow> 0 | Some v \<Rightarrow> v)"

definition price_key :: "price \<Rightarrow> rat \<times> rat" where
  "price_key p = (key_value (keys p), key_value (metal p))"

fun lex_less :: "rat \<times> rat \<Rightarrow> rat \<times> rat \<Rightarrow> bool" where
  "lex_less (a, b) (c, d) = (a < c \<or> (a = c \<and> b < d))"

fun lex_le :: "rat \<times> rat \<Rightarrow> rat \<times> rat \<Rightarrow> bool" where
  "lex_le (a, b) (c, d) = (a < c \<or> (a = c \<and> b \<le> d))"

text \<open>The order of the specification: a missing component counts as \<open>+\<infinity>\<close>.\<close>

datatype ext = Fin rat | Infty

fun spec_value :: "json \<Rightarrow> ext" where
  "spec_value JNull = Infty"
| "spec_value x = Fin (case num_of x of None \<Rightarrow> 0 | Some v \<Rightarrow> v)"

fun ext_less :: "ext \<Rightarrow> ext \<Rightarrow> bool" where
  "ext_less (Fin a) (Fin b) = (a < b)"
| "ext_less (Fin a) Infty = True"
| "ext_less Infty _ = False"

definition spec_less :: "price \<Rightarrow> price \<Rightarrow> bool" where
  "spec_less p q =
     (ext_less (spec_value (keys p)) (spec_value (keys q)) \<or>
      (spec_value (keys p) = spec_value (keys q) \<and>
       ext_less (spec_value (metal p)) (spec_value (metal q))))"

text \<open>A price whose components, where present, are numbers below \<open>10\<^sup>9\<close>.\<close>

definition below_sentinel :: "price \<Rightarrow> bool" where
  "below_sentinel p =
     (numeric_price p \<and>
      (keys p = JNull \<or> key_value (keys p) < 10 ^ 9) \<and>
      (metal p = JNull \<or> key_value (metal p) < 10 ^ 9))"

text \<open>Payloads with no listings collection to be found.\<close>

definition container :: "json \<Rightarrow> bool" where
  "container x = (is_list x \<or> is_dict x)"

fun lacks_listings :: "json \<Rightarrow> bool" where
  "lacks_listings (JDict kvs) =
     (if ''listings'' \<in> set (map fst kvs)
      then \<not> container (get_or_null (JDict kvs) ''listings'')
      else \<not> container (get_or_null (JDict kvs) ''results'') \<and>
           \<not> container (get_or_null (JDict kvs) ''data''))"
| "lacks_listings _ = True"

section \<open>Properties of the marketplace\<close>

subsection \<open>Tables\<close>

lemma find_map_upd:
  assumes "\<And>x. P x \<Longrightarrow> P (f x)"
  shows "find P (map (\<lambda>x. if P x then f x else x) xs) = map_option f (find P xs)"
  using assms by (induction xs) auto

lemma find_append_new:
  "find P xs = None \<Longrightarrow> P y \<Longrightarrow> find P (xs @ [y]) = Some y"
  by (induction xs) (auto split: if_splits)


lemmas sample_defs = sample_deposit_def sample_store_def alice_def bob_def carol_def

lemmas wallet_defs = confirm_deposit_def confirm_deposit_run_def
  VALID_TOKENS_def VALID_NETWORKS_def execute_def deposit_statements_def
  mark_order_paid_def mark_item_sold_def credit_balance_def record_deposit_def log_event_def
  balance_key_def balance_of_def


subsection \<open>The statements of a deposit confirmation\<close>

lemma balances_simps [simp]:
  "balances (log_event u i t db) = balances db"
  "balances (record_deposit order body db) = balances db"
  "balances (mark_item_sold i db) = balances db"
  "balances (mark_order_paid h oid db) = balances db"
  by (simp_all add: log_event_def record_deposit_def mark_item_sold_def mark_order_paid_def)

lemma transactions_simps [simp]:
  "transactions (log_event u i t db) = transactions db"
  "transactions (credit_balance uid tok net amt db) = transactions db"
  "transactions (mark_item_sold i db) = transactions db"
  "transactions (mark_order_paid h oid db) = transactions db"
  by (simp_all add: log_event_def credit_balance_def mark_item_sold_def mark_order_paid_def
      split: option.splits)

lemma items_simps [simp]:
  "items (log_event u i t db) = items db"
  "items (record_deposit order body db) = items db"
  "items (credit_balance uid tok net amt db) = items db"
  "items (mark_order_paid h oid db) = items db"
  by (simp_all add: log_event_def record_deposit_def credit_balance_def mark_order_paid_def
      split: option.splits)

lemma orders_simps [simp]:
  "orders (log_event u i t db) = orders db"
  "orders (record_deposit order body db) = orders db"
  "orders (credit_balance uid tok net amt db) = orders db"
  "orders (mark_item_sold i db) = orders db"
  by (simp_all add: log_event_def record_deposit_def credit_balance_def mark_item_sold_def
      split: option.splits)

lemma events_simps [simp]:
  "inventory_events (record_deposit order body db) = inventory_events db"
  "inventory_events (credit_balance uid tok net amt db) = inventory_events db"
  "inventory_events (mark_item_sold i db) = inventory_events db"
  "inventory_events (mark_order_paid h oid db) = inventory_events db"
  by (simp_all add: record_deposit_def credit_balance_def mark_item_sold_def mark_order_paid_def
      split: option.splits)

lemma balance_of_cong: "balances db = balances db' \<Longrightarrow> balance_of db = balance_of db'"
  by (simp add: balance_of_def fun_eq_iff)

lemma balance_of_credit:
  "balance_of (credit_balance uid tok net amt db) uid tok net =
     Some ((case balance_of db uid tok net of None \<Rightarrow> 0 | Some a \<Rightarrow> a) + amt)"
proof (cases "find (balance_key uid tok net) (balances db)")
  case None
  then show ?thesis
    by (simp add: balance_of_def credit_balance_def find_append_new balance_key_def)
next
  case (Some b)
  have "find (balance_key uid tok net)
          (map (\<lambda>b. if balance_key uid tok net b then b\<lparr>bal_amount := bal_amount b + amt\<rparr> else b)
             (balances db)) = map_option (\<lambda>b. b\<lparr>bal_amount := bal_amount b + amt\<rparr>) (Some b)"
    using find_map_upd [of "balance_key uid tok net"
        "\<lambda>b. b\<lparr>bal_amount := bal_amount b + amt\<rparr>" "balances db"] Some
    by (simp add: balance_key_def)
  with Some show ?thesis
    by (simp add: balance_of_def credit_balance_def)
qed

lemma execute_deposit:
  "execute (deposit_statements order body) db =
     log_event (buyer_id order) (order_item_id order) ''received''
       (record_deposit order body
         (credit_balance (buyer_id order) (dc_token body) (dc_network body) (dc_amount body)
           (mark_item_sold (order_item_id order)
             (mark_order_paid (dc_tx_hash body) (order_id order) db))))"
  by (simp add: execute_def deposit_statements_def)

lemma confirm_deposit_run_cases:
  "(\<exists>c. confirm_deposit_run fault body user db = (Inl (HTTPException c), db)) \<or>
   (\<exists>order. find (\<lambda>r. order_id r = dc_order_id body) (orders db) = Some order \<and>
      order_status order = ''pending'' \<and>
      confirm_deposit_run fault body user db =
        (case fault of
           None \<Rightarrow> (Inr (), execute (deposit_statements order body) db)
         | Some k \<Rightarrow> (Inl OperationalError, execute (take k (deposit_statements order body)) db)))"
  by (simp add: confirm_deposit_run_def split: option.splits)

lemma balance_of_deposit:
  "balance_of (execute (deposit_statements order body) db)
       (buyer_id order) (dc_token body) (dc_network body) =
     Some ((case balance_of db (buyer_id order) (dc_token body) (dc_network body) of
              None \<Rightarrow> 0 | Some a \<Rightarrow> a) + dc_amount body)"
proof -
  let ?db2 = "mark_item_sold (order_item_id order)
                (mark_order_paid (dc_tx_hash body) (order_id order) db)"
  have b: "balance_of ?db2 = balance_of db"
    by (rule balance_of_cong) simp
  have "balance_of (execute (deposit_statements order body) db) =
        balance_of (credit_balance (buyer_id order) (dc_token body) (dc_network body)
                      (dc_amount body) ?db2)"
    unfolding execute_deposit by (rule balance_of_cong) simp
  then show ?thesis
    by (simp add: balance_of_credit b)
qed

lemma transactions_deposit:
  "transactions (execute (deposit_statements order body) db) =
     transactions db @
       [\<lparr>tx_user_id = buyer_id order, tx_order_id = Some (order_id order),
         tx_type = ''deposit'', tx_amount = dc_amount body, tx_token = dc_token body,
         tx_network = dc_network body, tx_hash = Some (dc_tx_hash body)\<rparr>]"
  unfolding execute_deposit by (simp add: record_deposit_def)

lemma orders_deposit:
  "orders (execute (deposit_statements order body) db) =
     map (\<lambda>r. if order_id r = order_id order
              then r\<lparr>order_status := ''paid'', order_tx_hash := Some (dc_tx_hash body)\<rparr>
              else r) (orders db)"
  unfolding execute_deposit by (simp add: mark_order_paid_def)

lemma items_deposit:
  "items (execute (deposit_statements order body) db) =
     map (\<lambda>i. if item_id i = order_item_id order then i\<lparr>item_status := ''sold''\<rparr> else i)
         (items db)"
  unfolding execute_deposit by (simp add: mark_item_sold_def)

lemma events_deposit:
  "inventory_events (execute (deposit_statements order body) db) =
     inventory_events db @
       [\<lparr>ev_user_id = buyer_id order, ev_item_id = order_item_id order,
         event_type = ''received''\<rparr>]"
  unfolding execute_deposit by (simp add: log_event_def)

lemma take_deposit_statements:
  assumes "0 < k" "k \<le> 2"
  shows "execute (take k (deposit_statements order body)) db =
     (if k = 1 then mark_order_paid (dc_tx_hash body) (order_id order) db
      else mark_item_sold (order_item_id order)
             (mark_order_paid (dc_tx_hash body) (order_id order) db))"
proof -
  from assms have "k = 1 \<or> k = 2" by arith
  then show ?thesis
    by (auto simp: execute_def deposit_statements_def numeral_2_eq_2)
qed

subsection \<open>Deposit confirmation\<close>

text \<open>
  C10. A successful deposit confirmation credits the buyer's balance with the amount of
  the request body, and records that amount in the deposit transaction; the amount stored
  in the order is not consulted. The balance row is created with the amount when it is
  absent.
\<close>

theorem confirm_deposit_credits_request_amount:
  assumes "fst (confirm_deposit body user db) = Inr ()"
  shows "\<exists>order. find (\<lambda>r. order_id r = dc_order_id body) (orders db) = Some order \<and>
     balance_of (snd (confirm_deposit body user db))
         (buyer_id order) (dc_token body) (dc_network body) =
       Some ((case balance_of db (buyer_id order) (dc_token body) (dc_network body) of
                None \<Rightarrow> 0 | Some a \<Rightarrow> a) + dc_amount body) \<and>
     transactions (snd (confirm_deposit body user db)) = transactions db @
       [\<lparr>tx_user_id = buyer_id order, tx_order_id = Some (order_id order),
         tx_type = ''deposit'', tx_amount = dc_amount body, tx_token = dc_token body,
         tx_network = dc_network body, tx_hash = Some (dc_tx_hash body)\<rparr>]"
  using assms confirm_deposit_run_cases [of None body user db]
  by (auto simp: confirm_deposit_def balance_of_deposit transactions_deposit)

text \<open>
  The order of the sample database has amount 5; the request carries 7, and the balance
  goes from 10 to 17.
\<close>

theorem confirm_deposit_credits_request_amount_witness:
  "fst (confirm_deposit sample_deposit carol sample_store) = Inr () \<and>
   map amount_usdt (orders sample_store) = [5] \<and>
   dc_amount sample_deposit = 7 \<and>
   balance_of sample_store 2 ''USDT'' ''polygon'' = Some 10 \<and>
   balance_of (snd (confirm_deposit sample_deposit carol sample_store)) 2 ''USDT'' ''polygon''
     = Some 17 \<and>
   map tx_amount (transactions (snd (confirm_deposit sample_deposit carol sample_store))) = [7]"
proof -
  have h: "fst (confirm_deposit sample_deposit carol sample_store) = Inr ()"
    by (simp add: sample_defs wallet_defs)
  from confirm_deposit_credits_request_amount [OF h] h show ?thesis
    by (simp add: sample_defs balance_of_def balance_key_def)
qed

text \<open>
  C1, as stated, fails: when the connection fails after the second statement (between the
  order update and the balance credit), the order is paid and the balance is not credited.
\<close>

theorem confirm_deposit_not_atomic:
  "fst (confirm_deposit_run (Some 2) sample_deposit bob sample_store) = Inl OperationalError \<and>
   map order_status (orders sample_store) = [''pending''] \<and>
   map order_status (orders (snd (confirm_deposit_run (Some 2) sample_deposit bob sample_store)))
     = [''paid''] \<and>
   balances (snd (confirm_deposit_run (Some 2) sample_deposit bob sample_store))
     = balances sample_store \<and>
   transactions (snd (confirm_deposit_run (Some 2) sample_deposit bob sample_store)) = []"
  by (simp add: sample_defs wallet_defs)

text \<open>
  C1, amended. Deposit confirmation checks its preconditions before its first write: a
  request refused with an HTTP error leaves the database unchanged, and a confirmation
  that runs to its end applies all five writes (order paid with the transaction hash, item
  sold, balance credited, deposit transaction and received event appended). The five
  statements are committed one by one, with no transaction around them: a failure after
  \<open>k\<close> statements leaves exactly the first \<open>k\<close> writes, so that a failure between the order
  update and the balance credit leaves the order paid and the balance not credited.
\<close>

theorem confirm_deposit_writes:
  "(\<forall>c. fst (confirm_deposit_run fault body user db) = Inl (HTTPException c) \<longrightarrow>
        snd (confirm_deposit_run fault body user db) = db) \<and>
   (fst (confirm_deposit body user db) = Inr () \<longrightarrow>
      (\<exists>order. find (\<lambda>r. order_id r = dc_order_id body) (orders db) = Some order \<and>
         order_status order = ''pending'' \<and>
         orders (snd (confirm_deposit body user db)) =
           map (\<lambda>r. if order_id r = order_id order
                    then r\<lparr>order_status := ''paid'', order_tx_hash := Some (dc_tx_hash body)\<rparr>
                    else r) (orders db) \<and>
         items (snd (confirm_deposit body user db)) =
           map (\<lambda>i. if item_id i = order_item_id order then i\<lparr>item_status := ''sold''\<rparr> else i)
               (items db) \<and>
         balance_of (snd (confirm_deposit body user db))
             (buyer_id order) (dc_token body) (dc_network body) =
           Some ((case balance_of db (buyer_id order) (dc_token body) (dc_network body) of
                    None \<Rightarrow> 0 | Some a \<Rightarrow> a) + dc_amount body) \<and>
         transactions (snd (confirm_deposit body user db)) = transactions db @
           [\<lparr>tx_user_id = buyer_id order, tx_order_id = Some (order_id order),
             tx_type = ''deposit'', tx_amount = dc_amount body, tx_token = dc_token body,
             tx_network = dc_network body, tx_hash = Some (dc_tx_hash body)\<rparr>] \<and>
         inventory_events (snd (confirm_deposit body user db)) = inventory_events db @
           [\<lparr>ev_user_id = buyer_id order, ev_item_id = order_item_id order,
             event_type = ''received''\<rparr>])) \<and>
   (fst (confirm_deposit_run (Some k) body user db) = Inl OperationalError \<longrightarrow>
      (\<exists>order. find (\<lambda>r. order_id r = dc_order_id body) (orders db) = Some order \<and>
         snd (confirm_deposit_run (Some k) body user db) =
           execute (take k (deposit_statements order body)) db \<and>
         (0 < k \<and> k \<le> 2 \<longrightarrow>
            orders (snd (confirm_deposit_run (Some k) body user db)) =
              map (\<lambda>r. if order_id r = order_id order
                       then r\<lparr>order_status := ''paid'', order_tx_hash := Some (dc_tx_hash body)\<rparr>
                       else r) (orders db) \<and>
            balances (snd (confirm_deposit_run (Some k) body user db)) = balances db \<and>
            transactions (snd (confirm_deposit_run (Some k) body user db)) = transactions db)))"
  (is "?refused \<and> ?complete \<and> ?interrupted")
proof (intro conjI)
  show ?refused
    using confirm_deposit_run_cases [of fault body user db]
    by (auto split: option.splits)
  show ?complete
    using confirm_deposit_run_cases [of None body user db]
    by (auto simp: confirm_deposit_def balance_of_deposit transactions_deposit orders_deposit
        items_deposit events_deposit)
  show ?interrupted
  proof
    assume "fst (confirm_deposit_run (Some k) body user db) = Inl OperationalError"
    then obtain order where
      f: "find (\<lambda>r. order_id r = dc_order_id body) (orders db) = Some order"
      and r: "confirm_deposit_run (Some k) body user db =
          (Inl OperationalError, execute (take k (deposit_statements order body)) db)"
      using confirm_deposit_run_cases [of "Some k" body user db] by auto
    have "0 < k \<and> k \<le> 2 \<longrightarrow>
            orders (snd (confirm_deposit_run (Some k) body user db)) =
              map (\<lambda>r. if order_id r = order_id order
                       then r\<lparr>order_status := ''paid'', order_tx_hash := Some (dc_tx_hash body)\<rparr>
                       else r) (orders db) \<and>
            balances (snd (confirm_deposit_run (Some k) body user db)) = balances db \<and>
            transactions (snd (confirm_deposit_run (Some k) body user db)) = transactions db"
      by (simp add: r take_deposit_statements) (simp add: mark_order_paid_def)
    with f r show "\<exists>order. find (\<lambda>r. order_id r = dc_order_id body) (orders db) = Some order \<and>
         snd (confirm_deposit_run (Some k) body user db) =
           execute (take k (deposit_statements order body)) db \<and>
         (0 < k \<and> k \<le> 2 \<longrightarrow>
            orders (snd (confirm_deposit_run (Some k) body user db)) =
              map (\<lambda>r. if order_id r = order_id order
                       then r\<lparr>order_status := ''paid'', order_tx_hash := Some (dc_tx_hash body)\<rparr>
                       else r) (orders db) \<and>
            balances (snd (confirm_deposit_run (Some k) body user db)) = balances db \<and>
            transactions (snd (confirm_deposit_run (Some k) body user db)) = transactions db)"
      by auto
  qed
qed

theorem confirm_deposit_writes_witness:
  "fst (confirm_deposit (sample_deposit\<lparr>dc_token := ''DOGE''\<rparr>) bob sample_store)
     = Inl (HTTPException 400) \<and>
   snd (confirm_deposit (sample_deposit\<lparr>dc_token := ''DOGE''\<rparr>) bob sample_store) = sample_store \<and>
   fst (confirm_deposit sample_deposit bob sample_store) = Inr () \<and>
   map order_status (orders (snd (confirm_deposit sample_deposit bob sample_store))) = [''paid''] \<and>
   map item_status (items (snd (confirm_deposit sample_deposit bob sample_store)))
     = [''sold'', ''sold'', ''active''] \<and>
   fst (confirm_deposit_run (Some 2) sample_deposit bob sample_store) = Inl OperationalError \<and>
   balances (snd (confirm_deposit_run (Some 2) sample_deposit bob sample_store))
     = balances sample_store"
proof -
  let ?bad = "sample_deposit\<lparr>dc_token := ''DOGE''\<rparr>"
  note w = confirm_deposit_writes
  have h1: "fst (confirm_deposit_run None ?bad bob sample_store) = Inl (HTTPException 400)"
    by (simp add: sample_defs wallet_defs)
  have h2: "fst (confirm_deposit sample_deposit bob sample_store) = Inr ()"
    by (simp add: sample_defs wallet_defs)
  have h3: "fst (confirm_deposit_run (Some 2) sample_deposit bob sample_store)
      = Inl OperationalError"
    by (simp add: sample_defs wallet_defs)
  from w [where fault = None and body = ?bad and user = bob and db = sample_store] h1
  have 1: "snd (confirm_deposit ?bad bob sample_store) = sample_store"
    unfolding confirm_deposit_def by blast
  from w [where body = sample_deposit and user = bob and db = sample_store] h2
  obtain order where
    "find (\<lambda>r. order_id r = dc_order_id sample_deposit) (orders sample_store) = Some order"
    "orders (snd (confirm_deposit sample_deposit bob sample_store)) =
       map (\<lambda>r. if order_id r = order_id order
                then r\<lparr>order_status := ''paid'', order_tx_hash := Some (dc_tx_hash sample_deposit)\<rparr>
                else r) (orders sample_store)"
    "items (snd (confirm_deposit sample_deposit bob sample_store)) =
       map (\<lambda>i. if item_id i = order_item_id order then i\<lparr>item_status := ''sold''\<rparr> else i)
           (items sample_store)"
    by blast
  then have 2: "map order_status (orders (snd (confirm_deposit sample_deposit bob sample_store)))
       = [''paid''] \<and>
     map item_status (items (snd (confirm_deposit sample_deposit bob sample_store)))
       = [''sold'', ''sold'', ''active'']"
    by (auto simp: sample_defs)
  from w [where body = sample_deposit and user = bob and db = sample_store and k = 2] h3
  have 3: "balances (snd (confirm_deposit_run (Some 2) sample_deposit bob sample_store))
     = balances sample_store"
    by auto
  from h1 1 h2 2 h3 3 show ?thesis
    unfolding confirm_deposit_def by blast
qed

subsection \<open>Withdrawal\<close>

lemma withdraw_cases:
  "withdraw body user db = (Inl (HTTPException 400), db) \<or>
   (\<exists>bal. find (balance_key (user_id user) (wr_token body) (wr_network body)) (balances db)
            = Some bal \<and> wr_amount body \<le> bal_amount bal \<and>
      withdraw body user db =
        (Inr body,
         db\<lparr>balances :=
              map (\<lambda>b. if balance_key (user_id user) (wr_token body) (wr_network body) b
                       then b\<lparr>bal_amount := bal_amount b - wr_amount body\<rparr> else b)
                  (balances db),
            transactions := transactions db @ [withdrawal_tx body user]\<rparr>))"
  by (auto simp: withdraw_def split: option.splits)





subsection \<open>Orders\<close>

lemma next_id_fresh: "x \<in> set ids \<Longrightarrow> x < next_id ids"
proof -
  assume "x \<in> set ids"
  then have "x \<le> Max (set (0 # ids))"
    by (intro Max_ge) auto
  then have "x \<le> fold max ids 0"
    by (simp only: Max.set_eq_fold)
  then show ?thesis
    by (simp add: next_id_def)
qed

lemma find_fresh_row:
  "find (\<lambda>r. order_id r = next_id (map order_id rows)) (rows @ [row\<lparr>order_id := next_id (map order_id rows)\<rparr>])
     = Some (row\<lparr>order_id := next_id (map order_id rows)\<rparr>)"
proof (rule find_append_new)
  show "find (\<lambda>r. order_id r = next_id (map order_id rows)) rows = None"
    using next_id_fresh [of _ "map order_id rows"] by (fastforce simp: find_None_iff)
qed simp

lemma round_half_even_near: "\<bar>of_int (round_half_even y) - y\<bar> \<le> 1 / 2"
proof -
  have 1: "of_int \<lfloor>y\<rfloor> \<le> y" and 2: "y < of_int \<lfloor>y\<rfloor> + 1"
    by linarith+
  show ?thesis
    unfolding round_half_even_def Let_def
    using 1 2 by (auto simp: abs_le_iff)
qed

lemma py_round2_grid: "\<exists>n::int. py_round2 x = of_int n / 100"
  by (auto simp: py_round2_def)

lemma py_round2_near: "\<bar>py_round2 x - x\<bar> \<le> 1 / 200"
proof -
  have e: "py_round2 x - x = (of_int (round_half_even (x * 100)) - x * 100) / 100"
    by (simp add: py_round2_def field_simps)
  have "\<bar>py_round2 x - x\<bar> = \<bar>of_int (round_half_even (x * 100)) - x * 100\<bar> / 100"
    unfolding e by (simp only: abs_divide)
  also have "\<dots> \<le> (1 / 2) / 100"
    by (intro divide_right_mono round_half_even_near) simp
  finally show ?thesis by simp
qed

lemma binade_le:
  assumes "x \<noteq> 0"
  shows "2 powi (binade x) \<le> \<bar>x\<bar>"
proof -
  obtain n d where q: "quotient_of x = (n, d)" by (cases "quotient_of x")
  then have d: "0 < d" and x: "x = of_int n / of_int d"
    using quotient_of_denom_pos quotient_of_div by blast+
  from assms x have n: "0 < \<bar>n\<bar>" by auto
  let ?e0 = "bitlen \<bar>n\<bar> - bitlen d"
  show ?thesis
  proof (cases "2 powi ?e0 \<le> \<bar>x\<bar>")
    case True
    then show ?thesis by (simp add: binade_def q)
  next
    case False
    from bitlen_bounds [OF n] have ln: "2 ^ nat (bitlen \<bar>n\<bar> - 1) \<le> \<bar>n\<bar>" by blast
    from bitlen_bounds [OF d] have ud: "d < 2 ^ nat (bitlen d)" by blast
    have bn: "1 \<le> bitlen \<bar>n\<bar>" using n by (simp add: bitlen_alt_def)
    have bd: "0 \<le> bitlen d" by (rule bitlen_nonneg)
    have "?e0 - 1 = (bitlen \<bar>n\<bar> - 1) - bitlen d" by simp
    then have "(2::rat) powi (?e0 - 1) = 2 powi (bitlen \<bar>n\<bar> - 1) / 2 powi (bitlen d)"
      by (simp only: power_int_diff [of "2::rat", simplified])
    also have "\<dots> = 2 ^ nat (bitlen \<bar>n\<bar> - 1) / 2 ^ nat (bitlen d)"
      using bn bd by (simp add: power_int_def)
    also have "\<dots> \<le> of_int \<bar>n\<bar> / of_int d"
    proof (rule frac_le)
      show "(2::rat) ^ nat (bitlen \<bar>n\<bar> - 1) \<le> of_int \<bar>n\<bar>"
        using ln by (metis of_int_le_iff of_int_numeral of_int_power)
      show "(of_int d :: rat) \<le> 2 ^ nat (bitlen d)"
        using ud by (metis less_imp_le of_int_le_iff of_int_numeral of_int_power)
      show "(0::rat) < of_int d" using d by simp
      show "(0::rat) \<le> of_int \<bar>n\<bar>" by simp
    qed
    also have "\<dots> = \<bar>x\<bar>"
      using d by (simp add: x)
    finally show ?thesis
      using False by (simp add: binade_def q)
  qed
qed

text \<open>A float is within half a unit in the last place of the number it rounds.\<close>

lemma binary64_near:
  assumes "binary64 x = Some r"
  shows "\<bar>r - x\<bar> \<le> \<bar>x\<bar> / 2 ^ 53 + 1 / 2 ^ 1075"
proof (cases "x = 0")
  case True
  with assms show ?thesis by (simp add: binary64_def)
next
  case False
  define e where "e = max (binade x) (- 1022)"
  define ulp :: rat where "ulp = 2 powi (e - 52)"
  have pos: "0 < ulp" by (simp add: ulp_def)
  from assms False have r: "r = of_int (round_half_even (x / ulp)) * ulp"
    by (auto simp: binary64_def Let_def ulp_def e_def split: if_splits)
  have "r - x = (of_int (round_half_even (x / ulp)) - x / ulp) * ulp"
    using pos by (simp add: r field_simps)
  then have "\<bar>r - x\<bar> = \<bar>of_int (round_half_even (x / ulp)) - x / ulp\<bar> * ulp"
    using pos by (simp add: abs_mult)
  also have "\<dots> \<le> 1 / 2 * ulp"
    using round_half_even_near [of "x / ulp"] pos by (intro mult_right_mono) simp_all
  finally have half: "\<bar>r - x\<bar> \<le> ulp / 2" by simp
  have u: "ulp / 2 = 2 powi e / 2 ^ 53"
    by (simp add: ulp_def power_int_diff)
  show ?thesis
  proof (cases "- 1022 \<le> binade x")
    case True
    then have "2 powi e \<le> \<bar>x\<bar>"
      using binade_le [OF False] by (simp add: e_def max_def)
    then have "ulp / 2 \<le> \<bar>x\<bar> / 2 ^ 53"
      unfolding u by (intro divide_right_mono) simp_all
    with half have "\<bar>r - x\<bar> \<le> \<bar>x\<bar> / 2 ^ 53" by (rule order_trans)
    moreover have "(0::rat) \<le> 1 / 2 ^ 1075" by (intro divide_nonneg_nonneg) simp_all
    ultimately show ?thesis by (rule add_increasing2 [rotated])
  next
    case False
    then have "e = - 1022" by (simp add: e_def)
    then have "ulp / 2 = 1 / 2 ^ 1075"
      unfolding u by (simp add: power_int_def field_simps flip: power_add)
    with half have "\<bar>r - x\<bar> \<le> 1 / 2 ^ 1075" by (simp only:)
    moreover have "0 \<le> \<bar>x\<bar> / 2 ^ 53" by (intro divide_nonneg_nonneg) simp_all
    ultimately show ?thesis by (rule add_increasing [rotated])
  qed
qed

lemma order_total_Inr:
  "order_total price quantity = Inr t \<longleftrightarrow>
     (\<exists>p q x. binary64 price = Some p \<and> binary64 (of_int quantity) = Some q \<and>
        binary64 (p * q) = Some x \<and> binary64 (py_round2 x) = Some t)"
  by (auto simp: order_total_def split: option.splits)

lemma create_order_cases:
  "(case find (\<lambda>i. item_id i = oc_item_id body) (items db) of
      None \<Rightarrow> create_order h body user db = (Inl (HTTPException 404), db)
    | Some item \<Rightarrow>
        if item_status item \<noteq> ''active'' then create_order h body user db = (Inl (HTTPException 409), db)
        else if seller_id item = user_id user then create_order h body user db = (Inl (HTTPException 409), db)
        else if item_quantity item < oc_quantity body then create_order h body user db = (Inl (HTTPException 400), db)
        else
          (case order_total (price_usdt item) (oc_quantity body) of
             Inl e \<Rightarrow> create_order h body user db = (Inl e, db)
           | Inr amount \<Rightarrow>
               create_order h body user db =
                 (Inr (Some \<lparr>order_id = next_id (map order_id (orders db)),
                       buyer_id = user_id user,
                       order_item_id = item_id item, order_quantity = oc_quantity body,
                       amount_usdt = amount,
                       order_network = item_network item, payment_address = ''0x'' @ h,
                       order_status = ''pending'', order_tx_hash = None\<rparr>),
                  db\<lparr>orders := orders db @
                     [\<lparr>order_id = next_id (map order_id (orders db)),
                       buyer_id = user_id user,
                       order_item_id = item_id item, order_quantity = oc_quantity body,
                       amount_usdt = amount,
                       order_network = item_network item, payment_address = ''0x'' @ h,
                       order_status = ''pending'', order_tx_hash = None\<rparr>]\<rparr>)))"
proof -
  have fr: "find (\<lambda>r. order_id r = next_id (map order_id (orders db)))
     (orders db @ [\<lparr>order_id = next_id (map order_id (orders db)), buyer_id = b,
                   order_item_id = i, order_quantity = q,
                   amount_usdt = a,
                   order_network = n, payment_address = p,
                   order_status = s, order_tx_hash = t\<rparr>]) =
     Some \<lparr>order_id = next_id (map order_id (orders db)), buyer_id = b,
                   order_item_id = i, order_quantity = q,
                   amount_usdt = a,
                   order_network = n, payment_address = p,
                   order_status = s, order_tx_hash = t\<rparr>" for b i q a n p s t
    using find_fresh_row [of "orders db" "\<lparr>order_id = 0, buyer_id = b,
                   order_item_id = i, order_quantity = q,
                   amount_usdt = a,
                   order_network = n, payment_address = p,
                   order_status = s, order_tx_hash = t\<rparr>"] by simp
  show ?thesis
    by (simp add: create_order_def Let_def orders_status_default_def fr
        split: option.splits sum.splits)
qed

lemmas order_defs = create_order_def sample_order_def next_id_def orders_status_default_def
  Let_def

text \<open>
  C5, as stated, fails twice. A quantity above the available quantity is not always
  answered with status 400: the seller of item 1 (3 available) asking for 5 gets 409, and
  so does a buyer asking for 11 of the sold item 2 (10 available), because the status
  check and the own-listing check come first. And the amount is rounded in binary
  floating point: at price 2.675 and quantity 1 the product rounded to two decimals is
  2.68, and the order gets the float 2.67, the float of 2.675 lying just below the tie.
\<close>

theorem create_order_own_listing_over_quantity:
  "map item_status (items sample_store) = [''active'', ''sold'', ''active''] \<and>
   map seller_id (items sample_store) = [1, 1, 1] \<and>
   map item_quantity (items sample_store) = [3, 10, 10] \<and>
   user_id alice = 1 \<and>
   create_order ''00'' (sample_order 1 5) alice sample_store
     = (Inl (HTTPException 409), sample_store) \<and>
   create_order ''00'' (sample_order 2 11) bob sample_store
     = (Inl (HTTPException 409), sample_store) \<and>
   fst (create_order ''00'' (sample_order 1 1) bob (price_store (2675 / 1000))) =
     Inr (Some \<lparr>order_id = 1, buyer_id = 2, order_item_id = 1, order_quantity = 1,
                amount_usdt = 1503076375634903 / 562949953421312, order_network = ''bsc'',
                payment_address = ''0x00'', order_status = ''pending'',
                order_tx_hash = None\<rparr>) \<and>
   py_round2 (2675 / 1000 * 1) = 268 / 100 \<and>
   binary64 (268 / 100) = Some (6034823500676465 / 2251799813685248) \<and>
   binary64 (267 / 100) = Some (1503076375634903 / 562949953421312)"
proof -
  have t: "order_total (2675 / 1000) 1 = Inr (1503076375634903 / 562949953421312)"
    by code_simp
  have 1: "map item_status (items sample_store) = [''active'', ''sold'', ''active''] \<and>
   map seller_id (items sample_store) = [1, 1, 1] \<and>
   map item_quantity (items sample_store) = [3, 10, 10] \<and>
   user_id alice = 1 \<and>
   create_order ''00'' (sample_order 1 5) alice sample_store
     = (Inl (HTTPException 409), sample_store) \<and>
   create_order ''00'' (sample_order 2 11) bob sample_store
     = (Inl (HTTPException 409), sample_store)"
    by (simp add: sample_defs order_defs)
  have 2: "fst (create_order ''00'' (sample_order 1 1) bob (price_store (2675 / 1000))) =
     Inr (Some \<lparr>order_id = 1, buyer_id = 2, order_item_id = 1, order_quantity = 1,
                amount_usdt = 1503076375634903 / 562949953421312, order_network = ''bsc'',
                payment_address = ''0x00'', order_status = ''pending'',
                order_tx_hash = None\<rparr>)"
    using t by (simp add: price_store_def bob_def order_defs)
  have 3: "py_round2 (2675 / 1000 * 1) = 268 / 100"
    by code_simp
  have 4: "binary64 (268 / 100) = Some (6034823500676465 / 2251799813685248)"
    by code_simp
  have 5: "binary64 (267 / 100) = Some (1503076375634903 / 562949953421312)"
    by code_simp
  from 1 2 3 4 5 show ?thesis by blast
qed

text \<open>
  C5, amended. Order creation succeeds only when the item is active, the buyer is not the
  seller and the quantity is at most the item's; it then appends one pending order of the
  buyer, with the item's network, whose amount is
  \<^verbatim>\<open>round(float(price) * quantity, 2)\<close> in binary floating point: the float nearest to
  the multiple of 1/100 that is nearest to the float product (each float within half a
  unit in the last place of what it rounds, the multiple of 1/100 within 1/200 of the
  product). Under these conditions it succeeds whenever that amount is finite. On an
  existing item, a buyer equal to the seller is always refused with 409 and a quantity
  above the available one is always refused, with the database unchanged: with 400 when
  the item is active and the buyer is not the seller, with 409 otherwise.
\<close>

theorem create_order_checks:
  "(fst (create_order h body user db) = Inr r \<longrightarrow>
      (\<exists>item order p q x.
         find (\<lambda>i. item_id i = oc_item_id body) (items db) = Some item \<and>
         item_status item = ''active'' \<and> seller_id item \<noteq> user_id user \<and>
         oc_quantity body \<le> item_quantity item \<and>
         r = Some order \<and> order_status order = ''pending'' \<and>
         buyer_id order = user_id user \<and> order_item_id order = item_id item \<and>
         order_quantity order = oc_quantity body \<and>
         binary64 (price_usdt item) = Some p \<and>
         binary64 (of_int (oc_quantity body)) = Some q \<and>
         binary64 (p * q) = Some x \<and>
         binary64 (py_round2 x) = Some (amount_usdt order) \<and>
         \<bar>p - price_usdt item\<bar> \<le> \<bar>price_usdt item\<bar> / 2 ^ 53 + 1 / 2 ^ 1075 \<and>
         \<bar>x - p * q\<bar> \<le> \<bar>p * q\<bar> / 2 ^ 53 + 1 / 2 ^ 1075 \<and>
         \<bar>py_round2 x - x\<bar> \<le> 1 / 200 \<and>
         (\<exists>n::int. py_round2 x = of_int n / 100) \<and>
         \<bar>amount_usdt order - py_round2 x\<bar> \<le> \<bar>py_round2 x\<bar> / 2 ^ 53 + 1 / 2 ^ 1075 \<and>
         order_network order = item_network item \<and>
         orders (snd (create_order h body user db)) = orders db @ [order])) \<and>
   (\<forall>item. find (\<lambda>i. item_id i = oc_item_id body) (items db) = Some item \<and>
        seller_id item = user_id user \<longrightarrow>
      create_order h body user db = (Inl (HTTPException 409), db)) \<and>
   (\<forall>item. find (\<lambda>i. item_id i = oc_item_id body) (items db) = Some item \<and>
        item_quantity item < oc_quantity body \<longrightarrow>
      create_order h body user db =
        (Inl (HTTPException
               (if item_status item = ''active'' \<and> seller_id item \<noteq> user_id user
                then 400 else 409)), db)) \<and>
   (\<forall>item p q x t. find (\<lambda>i. item_id i = oc_item_id body) (items db) = Some item \<and>
        item_status item = ''active'' \<and> seller_id item \<noteq> user_id user \<and>
        oc_quantity body \<le> item_quantity item \<and>
        binary64 (price_usdt item) = Some p \<and>
        binary64 (of_int (oc_quantity body)) = Some q \<and>
        binary64 (p * q) = Some x \<and> binary64 (py_round2 x) = Some t \<longrightarrow>
      (\<exists>order. fst (create_order h body user db) = Inr (Some order) \<and>
         amount_usdt order = t))"
  (is "?success \<and> ?own \<and> ?quantity \<and> ?enabled")
proof (intro conjI)
  note c = create_order_cases [where body = body and db = db and h = h and user = user]
  show ?success
  proof
    assume ok: "fst (create_order h body user db) = Inr r"
    from ok c obtain item amount where
      f: "find (\<lambda>i. item_id i = oc_item_id body) (items db) = Some item"
      and g: "item_status item = ''active''" "seller_id item \<noteq> user_id user"
        "oc_quantity body \<le> item_quantity item"
      and t: "order_total (price_usdt item) (oc_quantity body) = Inr amount"
      and co: "create_order h body user db =
         (Inr (Some \<lparr>order_id = next_id (map order_id (orders db)),
                       buyer_id = user_id user,
                       order_item_id = item_id item, order_quantity = oc_quantity body,
                       amount_usdt = amount,
                       order_network = item_network item, payment_address = ''0x'' @ h,
                       order_status = ''pending'', order_tx_hash = None\<rparr>),
          db\<lparr>orders := orders db @
                     [\<lparr>order_id = next_id (map order_id (orders db)),
                       buyer_id = user_id user,
                       order_item_id = item_id item, order_quantity = oc_quantity body,
                       amount_usdt = amount,
                       order_network = item_network item, payment_address = ''0x'' @ h,
                       order_status = ''pending'', order_tx_hash = None\<rparr>]\<rparr>)"
      by (auto split: option.splits if_splits sum.splits)
    from t obtain p q x where
      b: "binary64 (price_usdt item) = Some p" "binary64 (of_int (oc_quantity body)) = Some q"
        "binary64 (p * q) = Some x" "binary64 (py_round2 x) = Some amount"
      unfolding order_total_Inr by blast
    let ?order = "\<lparr>order_id = next_id (map order_id (orders db)),
                       buyer_id = user_id user,
                       order_item_id = item_id item, order_quantity = oc_quantity body,
                       amount_usdt = amount,
                       order_network = item_network item, payment_address = ''0x'' @ h,
                       order_status = ''pending'', order_tx_hash = None\<rparr>"
    from ok co have r: "r = Some ?order" by simp
    have o: "orders (snd (create_order h body user db)) = orders db @ [?order]"
      by (simp add: co)
    have a: "amount_usdt ?order = amount" by simp
    show "\<exists>item order p q x.
         find (\<lambda>i. item_id i = oc_item_id body) (items db) = Some item \<and>
         item_status item = ''active'' \<and> seller_id item \<noteq> user_id user \<and>
         oc_quantity body \<le> item_quantity item \<and>
         r = Some order \<and> order_status order = ''pending'' \<and>
         buyer_id order = user_id user \<and> order_item_id order = item_id item \<and>
         order_quantity order = oc_quantity body \<and>
         binary64 (price_usdt item) = Some p \<and>
         binary64 (of_int (oc_quantity body)) = Some q \<and>
         binary64 (p * q) = Some x \<and>
         binary64 (py_round2 x) = Some (amount_usdt order) \<and>
         \<bar>p - price_usdt item\<bar> \<le> \<bar>price_usdt item\<bar> / 2 ^ 53 + 1 / 2 ^ 1075 \<and>
         \<bar>x - p * q\<bar> \<le> \<bar>p * q\<bar> / 2 ^ 53 + 1 / 2 ^ 1075 \<and>
         \<bar>py_round2 x - x\<bar> \<le> 1 / 200 \<and>
         (\<exists>n::int. py_round2 x = of_int n / 100) \<and>
         \<bar>amount_usdt order - py_round2 x\<bar> \<le> \<bar>py_round2 x\<bar> / 2 ^ 53 + 1 / 2 ^ 1075 \<and>
         order_network order = item_network item \<and>
         orders (snd (create_order h body user db)) = orders db @ [order]"
    proof (rule exI [of _ item], rule exI [of _ ?order], rule exI [of _ p], rule exI [of _ q],
        rule exI [of _ x], intro conjI)
      show "binary64 (py_round2 x) = Some (amount_usdt ?order)"
        unfolding a by (rule b(4))
      show "\<bar>amount_usdt ?order - py_round2 x\<bar> \<le> \<bar>py_round2 x\<bar> / 2 ^ 53 + 1 / 2 ^ 1075"
        unfolding a by (rule binary64_near [OF b(4)])
      show "\<bar>p - price_usdt item\<bar> \<le> \<bar>price_usdt item\<bar> / 2 ^ 53 + 1 / 2 ^ 1075"
        by (rule binary64_near [OF b(1)])
      show "\<bar>x - p * q\<bar> \<le> \<bar>p * q\<bar> / 2 ^ 53 + 1 / 2 ^ 1075"
        by (rule binary64_near [OF b(3)])
      show "\<bar>py_round2 x - x\<bar> \<le> 1 / 200"
        by (rule py_round2_near)
      show "\<exists>n::int. py_round2 x = of_int n / 100"
        by (rule py_round2_grid)
      show "orders (snd (create_order h body user db)) = orders db @ [?order]"
        by (rule o)
    qed (use f g r b in simp_all)
  qed
  show ?own
    using c by (auto split: option.splits if_splits)
  show ?quantity
    using c by (auto split: option.splits if_splits)
  show ?enabled
  proof (intro allI impI, elim conjE)
    fix item p q x t
    assume f: "find (\<lambda>i. item_id i = oc_item_id body) (items db) = Some item"
      and g: "item_status item = ''active''" "seller_id item \<noteq> user_id user"
        "oc_quantity body \<le> item_quantity item"
      and b: "binary64 (price_usdt item) = Some p" "binary64 (of_int (oc_quantity body)) = Some q"
        "binary64 (p * q) = Some x" "binary64 (py_round2 x) = Some t"
    from b have "order_total (price_usdt item) (oc_quantity body) = Inr t"
      unfolding order_total_Inr by blast
    with c f g show "\<exists>order. fst (create_order h body user db) = Inr (Some order) \<and>
         amount_usdt order = t"
      by simp
  qed
qed

theorem create_order_checks_witness:
  "fst (create_order ''00'' (sample_order 3 3) bob sample_store) =
     Inr (Some \<lparr>order_id = 2, buyer_id = 2, order_item_id = 3, order_quantity = 3,
                amount_usdt = 3422735716801577 / 9007199254740992, order_network = ''bsc'',
                payment_address = ''0x00'', order_status = ''pending'',
                order_tx_hash = None\<rparr>) \<and>
   binary64 (38 / 100) = Some (3422735716801577 / 9007199254740992) \<and>
   length (orders (snd (create_order ''00'' (sample_order 3 3) bob sample_store))) = 2 \<and>
   create_order ''00'' (sample_order 3 3) alice sample_store
     = (Inl (HTTPException 409), sample_store) \<and>
   create_order ''00'' (sample_order 3 11) bob sample_store
     = (Inl (HTTPException 400), sample_store) \<and>
   (\<exists>order. fst (create_order ''00'' (sample_order 1 1) bob (price_store (2675 / 1000)))
        = Inr (Some order) \<and>
      amount_usdt order = 1503076375634903 / 562949953421312)"
proof -
  note w = create_order_checks
  have f: "find (\<lambda>i. item_id i = oc_item_id (sample_order 3 q)) (items sample_store) =
     Some \<lparr>item_id = 3, seller_id = 1, item_name = ''Tour of Duty Ticket'',
          item_type = ''ticket'', price_usdt = 1 / 8, item_quantity = 10,
          item_network = ''bsc'', item_status = ''active''\<rparr>" for q
    by (simp add: sample_defs sample_order_def)
  have t: "order_total (1 / 8) 3 = Inr (3422735716801577 / 9007199254740992)"
    by code_simp
  have b38: "binary64 (38 / 100) = Some (3422735716801577 / 9007199254740992)"
    by code_simp
  have ok: "fst (create_order ''00'' (sample_order 3 3) bob sample_store) =
     Inr (Some \<lparr>order_id = 2, buyer_id = 2, order_item_id = 3, order_quantity = 3,
                amount_usdt = 3422735716801577 / 9007199254740992, order_network = ''bsc'',
                payment_address = ''0x00'', order_status = ''pending'',
                order_tx_hash = None\<rparr>)"
    using t by (simp add: sample_defs order_defs)
  from w [where h = "''00''" and body = "sample_order 3 3" and user = bob and db = sample_store] ok
  obtain order where
    "orders (snd (create_order ''00'' (sample_order 3 3) bob sample_store))
       = orders sample_store @ [order]"
    by blast
  then have 1: "length (orders (snd (create_order ''00'' (sample_order 3 3) bob sample_store))) = 2"
    by (simp add: sample_store_def)
  from w [where h = "''00''" and body = "sample_order 3 3" and user = alice and db = sample_store] f
  have 2: "create_order ''00'' (sample_order 3 3) alice sample_store
     = (Inl (HTTPException 409), sample_store)"
    by (simp add: sample_defs)
  from w [where h = "''00''" and body = "sample_order 3 11" and user = bob and db = sample_store] f
  have 3: "create_order ''00'' (sample_order 3 11) bob sample_store
     = (Inl (HTTPException 400), sample_store)"
    by (simp add: sample_defs sample_order_def)
  have fp: "find (\<lambda>i. item_id i = oc_item_id (sample_order 1 1))
        (items (price_store (2675 / 1000))) =
     Some \<lparr>item_id = 1, seller_id = 1, item_name = ''Refined Metal'', item_type = ''metal'',
          price_usdt = 2675 / 1000, item_quantity = 10, item_network = ''bsc'',
          item_status = ''active''\<rparr>"
    by (simp add: price_store_def sample_order_def)
  have c: "binary64 (2675 / 1000) = Some (3011782250804019 / 1125899906842624)"
    "binary64 (of_int 1) = Some 1"
    "binary64 (3011782250804019 / 1125899906842624 * 1)
       = Some (3011782250804019 / 1125899906842624)"
    "binary64 (py_round2 (3011782250804019 / 1125899906842624))
       = Some (1503076375634903 / 562949953421312)"
    by code_simp+
  have h: "find (\<lambda>i. item_id i = oc_item_id (sample_order 1 1))
        (items (price_store (2675 / 1000))) =
     Some \<lparr>item_id = 1, seller_id = 1, item_name = ''Refined Metal'', item_type = ''metal'',
          price_usdt = 2675 / 1000, item_quantity = 10, item_network = ''bsc'',
          item_status = ''active''\<rparr> \<and>
     item_status \<lparr>item_id = 1, seller_id = 1, item_name = ''Refined Metal'',
          item_type = ''metal'', price_usdt = 2675 / 1000, item_quantity = 10,
          item_network = ''bsc'', item_status = ''active''\<rparr> = ''active'' \<and>
     seller_id \<lparr>item_id = 1, seller_id = 1, item_name = ''Refined Metal'',
          item_type = ''metal'', price_usdt = 2675 / 1000, item_quantity = 10,
          item_network = ''bsc'', item_status = ''active''\<rparr> \<noteq> user_id bob \<and>
     oc_quantity (sample_order 1 1) \<le>
       item_quantity \<lparr>item_id = 1, seller_id = 1, item_name = ''Refined Metal'',
          item_type = ''metal'', price_usdt = 2675 / 1000, item_quantity = 10,
          item_network = ''bsc'', item_status = ''active''\<rparr> \<and>
     binary64 (price_usdt \<lparr>item_id = 1, seller_id = 1, item_name = ''Refined Metal'',
          item_type = ''metal'', price_usdt = 2675 / 1000, item_quantity = 10,
          item_network = ''bsc'', item_status = ''active''\<rparr>)
       = Some (3011782250804019 / 1125899906842624) \<and>
     binary64 (of_int (oc_quantity (sample_order 1 1))) = Some 1 \<and>
     binary64 (3011782250804019 / 1125899906842624 * 1)
       = Some (3011782250804019 / 1125899906842624) \<and>
     binary64 (py_round2 (3011782250804019 / 1125899906842624))
       = Some (1503076375634903 / 562949953421312)"
    using fp c by (simp add: sample_order_def bob_def)
  from w [where h = "''00''" and body = "sample_order 1 1" and user = bob
      and db = "price_store (2675 / 1000)"] h
  have 4: "\<exists>order. fst (create_order ''00'' (sample_order 1 1) bob (price_store (2675 / 1000)))
        = Inr (Some order) \<and>
      amount_usdt order = 1503076375634903 / 562949953421312"
    by blast
  from ok b38 1 2 3 4 show ?thesis by blast
qed

subsection \<open>Ownership and item status\<close>

lemmas item_defs = update_item_def delete_item_def apply_update_def bad_status_def
  no_updates_def VALID_STATUSES_def log_event_def sample_update_def

lemma update_item_cases:
  "(case find (\<lambda>i. item_id i = iid) (items db) of
      None \<Rightarrow> update_item iid body user db = (Inl (HTTPException 404), db)
    | Some item \<Rightarrow>
        if seller_id item \<noteq> user_id user \<and> \<not> is_admin user
        then update_item iid body user db = (Inl (HTTPException 403), db)
        else if bad_status (upd_status body) \<or> no_updates body
        then update_item iid body user db = (Inl (HTTPException 400), db)
        else update_item iid body user db =
          (Inr (find (\<lambda>i. item_id i = iid)
                  (map (\<lambda>i. if item_id i = iid then apply_update body i else i) (items db))),
           db\<lparr>items := map (\<lambda>i. if item_id i = iid then apply_update body i else i) (items db)\<rparr>))"
  by (simp add: update_item_def Let_def split: option.splits)

lemma delete_item_cases:
  "(case find (\<lambda>i. item_id i = iid) (items db) of
      None \<Rightarrow> delete_item iid user db = (Inl (HTTPException 404), db)
    | Some item \<Rightarrow>
        if seller_id item \<noteq> user_id user \<and> \<not> is_admin user
        then delete_item iid user db = (Inl (HTTPException 403), db)
        else if item_status item = ''sold''
        then delete_item iid user db = (Inl (HTTPException 409), db)
        else delete_item iid user db =
          (Inr (),
           db\<lparr>items := map (\<lambda>i. if item_id i = iid then i\<lparr>item_status := ''cancelled''\<rparr> else i)
                           (items db),
              inventory_events := inventory_events db @
                [\<lparr>ev_user_id = user_id user, ev_item_id = iid, event_type = ''cancelled''\<rparr>]\<rparr>))"
  by (simp add: delete_item_def log_event_def split: option.splits)

lemma cancel_order_cases:
  "(case find (\<lambda>r. order_id r = oid) (orders db) of
      None \<Rightarrow> cancel_order oid user db = (Inl (HTTPException 404), db)
    | Some order \<Rightarrow>
        if buyer_id order \<noteq> user_id user
        then cancel_order oid user db = (Inl (HTTPException 403), db)
        else if order_status order \<noteq> ''pending''
        then cancel_order oid user db = (Inl (HTTPException 409), db)
        else cancel_order oid user db =
          (Inr (),
           db\<lparr>orders := map (\<lambda>r. if order_id r = oid then r\<lparr>order_status := ''cancelled''\<rparr> else r)
                            (orders db)\<rparr>))"
  by (simp add: cancel_order_def split: option.splits)

text \<open>
  C2, as stated, fails for deposit confirmation: the pending order of user 2 is confirmed
  by user 3, who is neither its buyer nor an admin.
\<close>

theorem confirm_deposit_by_stranger:
  "map buyer_id (orders sample_store) = [2] \<and>
   user_id carol = 3 \<and> \<not> is_admin carol \<and>
   fst (confirm_deposit sample_deposit carol sample_store) = Inr () \<and>
   map order_status (orders (snd (confirm_deposit sample_deposit carol sample_store)))
     = [''paid'']"
  by (simp add: sample_defs wallet_defs)

text \<open>
  C2, amended. Item update and item delete succeed only for the owning seller or an admin,
  and order cancel only for the buyer (an admin who is not the buyer is refused); on an
  existing row any other user gets status 403 and the database is unchanged. Deposit
  confirmation checks no ownership: its result does not depend on the acting user.
\<close>

theorem ownership_checks:
  "(fst (update_item iid body user db) = Inr r1 \<longrightarrow>
      (\<exists>item. find (\<lambda>i. item_id i = iid) (items db) = Some item \<and>
         (seller_id item = user_id user \<or> is_admin user))) \<and>
   (fst (delete_item iid user db) = Inr r2 \<longrightarrow>
      (\<exists>item. find (\<lambda>i. item_id i = iid) (items db) = Some item \<and>
         (seller_id item = user_id user \<or> is_admin user))) \<and>
   (fst (cancel_order oid user db) = Inr r3 \<longrightarrow>
      (\<exists>order. find (\<lambda>r. order_id r = oid) (orders db) = Some order \<and>
         buyer_id order = user_id user)) \<and>
   (\<forall>item. find (\<lambda>i. item_id i = iid) (items db) = Some item \<and>
        seller_id item \<noteq> user_id user \<and> \<not> is_admin user \<longrightarrow>
      update_item iid body user db = (Inl (HTTPException 403), db) \<and>
      delete_item iid user db = (Inl (HTTPException 403), db)) \<and>
   (\<forall>order. find (\<lambda>r. order_id r = oid) (orders db) = Some order \<and>
        buyer_id order \<noteq> user_id user \<longrightarrow>
      cancel_order oid user db = (Inl (HTTPException 403), db)) \<and>
   confirm_deposit dbody user db = confirm_deposit dbody user' db"
  (is "?update \<and> ?delete \<and> ?cancel \<and> ?item_forbidden \<and> ?order_forbidden \<and> ?deposit")
proof (intro conjI)
  note u = update_item_cases [where iid = iid and body = body and user = user and db = db]
  note d = delete_item_cases [where iid = iid and user = user and db = db]
  note c = cancel_order_cases [where oid = oid and user = user and db = db]
  show ?update
    using u by (auto split: option.splits if_splits)
  show ?delete
    using d by (auto split: option.splits if_splits)
  show ?cancel
    using c by (auto split: option.splits if_splits)
  show ?item_forbidden
    using u d by (auto split: option.splits if_splits)
  show ?order_forbidden
    using c by (auto split: option.splits if_splits)
  show ?deposit
    by (simp add: confirm_deposit_def confirm_deposit_run_def)
qed

theorem ownership_checks_witness:
  "fst (update_item 1 sample_update alice sample_store) \<noteq> Inl (HTTPException 403) \<and>
   update_item 1 sample_update bob sample_store = (Inl (HTTPException 403), sample_store) \<and>
   delete_item 1 bob sample_store = (Inl (HTTPException 403), sample_store) \<and>
   fst (delete_item 1 admin sample_store) = Inr () \<and>
   cancel_order 1 admin sample_store = (Inl (HTTPException 403), sample_store) \<and>
   fst (cancel_order 1 bob sample_store) = Inr () \<and>
   confirm_deposit sample_deposit carol sample_store
     = confirm_deposit sample_deposit bob sample_store"
proof -
  note w = ownership_checks
  have fi: "find (\<lambda>i. item_id i = 1) (items sample_store) =
     Some \<lparr>item_id = 1, seller_id = 1, item_name = ''Mann Co. Supply Crate Key'',
          item_type = ''key'', price_usdt = 5 / 2, item_quantity = 3,
          item_network = ''polygon'', item_status = ''active''\<rparr>"
    by (simp add: sample_defs)
  have fo: "find (\<lambda>r. order_id r = 1) (orders sample_store) =
     Some \<lparr>order_id = 1, buyer_id = 2, order_item_id = 1, order_quantity = 2,
          amount_usdt = 5, order_network = ''polygon'',
          payment_address = ''0x00'', order_status = ''pending'', order_tx_hash = None\<rparr>"
    by (simp add: sample_defs)
  have 1: "fst (update_item 1 sample_update alice sample_store) \<noteq> Inl (HTTPException 403)"
    by (simp add: sample_defs item_defs)
  from w [where iid = 1 and body = sample_update and user = bob and db = sample_store] fi
  have 2: "update_item 1 sample_update bob sample_store = (Inl (HTTPException 403), sample_store) \<and>
   delete_item 1 bob sample_store = (Inl (HTTPException 403), sample_store)"
    by (simp add: bob_def)
  have 3: "fst (delete_item 1 admin sample_store) = Inr ()"
    by (simp add: sample_defs item_defs admin_def)
  from w [where oid = 1 and user = admin and db = sample_store] fo
  have 4: "cancel_order 1 admin sample_store = (Inl (HTTPException 403), sample_store)"
    by (simp add: admin_def)
  have 5: "fst (cancel_order 1 bob sample_store) = Inr ()"
    by (simp add: sample_defs cancel_order_def)
  from w [where dbody = sample_deposit and user = carol and user' = bob and db = sample_store]
  have 6: "confirm_deposit sample_deposit carol sample_store
     = confirm_deposit sample_deposit bob sample_store"
    by blast
  from 1 2 3 4 5 6 show ?thesis by blast
qed

text \<open>
  C3, as stated, fails: one update request of the seller moves the sold item 2 back to
  active and changes its price and quantity.
\<close>

theorem update_item_reactivates_sold:
  "map item_status (items sample_store) = [''active'', ''sold'', ''active''] \<and>
   fst (update_item 2 sample_update alice sample_store) =
     Inr (Some \<lparr>item_id = 2, seller_id = 1, item_name = ''Refined Metal'',
                item_type = ''metal'', price_usdt = 9, item_quantity = 1,
                item_network = ''bsc'', item_status = ''active''\<rparr>) \<and>
   map item_status (items (snd (update_item 2 sample_update alice sample_store)))
     = [''active'', ''active'', ''active'']"
  by (simp add: sample_defs item_defs)

text \<open>
  C3, amended. Withdrawal, order creation and order cancellation never touch an item. A
  deposit confirmation sets the item of its order to sold, whatever the item's status was;
  a delete by the owner or an admin sets the item to cancelled and is refused with 409 for
  a sold item. An item update by the owner or an admin does not look at the current
  status: it writes the fields the request supplies, the status being empty or one of
  active, sold and cancelled, so that it can move a sold or cancelled item back to active
  and change its price and quantity.
\<close>

theorem item_status_transitions:
  "items (snd (withdraw wbody user db)) = items db \<and>
   items (snd (create_order h obody user db)) = items db \<and>
   items (snd (cancel_order oid user db)) = items db \<and>
   (fst (confirm_deposit dbody user db) \<noteq> Inr () \<longrightarrow>
      items (snd (confirm_deposit dbody user db)) = items db) \<and>
   (fst (confirm_deposit dbody user db) = Inr () \<longrightarrow>
      (\<exists>order. find (\<lambda>r. order_id r = dc_order_id dbody) (orders db) = Some order \<and>
         items (snd (confirm_deposit dbody user db)) =
           map (\<lambda>i. if item_id i = order_item_id order then i\<lparr>item_status := ''sold''\<rparr> else i)
               (items db))) \<and>
   (\<forall>item. find (\<lambda>i. item_id i = iid) (items db) = Some item \<and>
        item_status item = ''sold'' \<and> (seller_id item = user_id user \<or> is_admin user) \<longrightarrow>
      delete_item iid user db = (Inl (HTTPException 409), db)) \<and>
   (fst (delete_item iid user db) \<noteq> Inr () \<longrightarrow> snd (delete_item iid user db) = db) \<and>
   (fst (delete_item iid user db) = Inr () \<longrightarrow>
      items (snd (delete_item iid user db)) =
        map (\<lambda>i. if item_id i = iid then i\<lparr>item_status := ''cancelled''\<rparr> else i) (items db)) \<and>
   (\<forall>e. fst (update_item iid body user db) = Inl e \<longrightarrow>
      snd (update_item iid body user db) = db) \<and>
   (\<forall>r. fst (update_item iid body user db) = Inr r \<longrightarrow>
      (upd_status body = None \<or> upd_status body = Some [] \<or>
       (\<exists>v. upd_status body = Some v \<and> v \<in> VALID_STATUSES)) \<and>
      items (snd (update_item iid body user db)) =
        map (\<lambda>i. if item_id i = iid then apply_update body i else i) (items db)) \<and>
   (\<forall>v. upd_status body = Some v \<longrightarrow> item_status (apply_update body i) = v) \<and>
   (\<forall>v. upd_price_usdt body = Some v \<longrightarrow> price_usdt (apply_update body i) = v) \<and>
   (\<forall>v. upd_quantity body = Some v \<longrightarrow> item_quantity (apply_update body i) = v)"
  (is "?w \<and> ?co \<and> ?ca \<and> ?dep_fail \<and> ?dep \<and> ?del_sold \<and> ?del_fail \<and> ?del \<and>
       ?upd_fail \<and> ?upd \<and> ?st \<and> ?pr \<and> ?qu")
proof (intro conjI)
  note u = update_item_cases [where iid = iid and body = body and user = user and db = db]
  note d = delete_item_cases [where iid = iid and user = user and db = db]
  note c = cancel_order_cases [where oid = oid and user = user and db = db]
  note o = create_order_cases [where body = obody and db = db and h = h and user = user]
  note p = confirm_deposit_run_cases [of None dbody user db]
  show ?w
    using withdraw_cases [of wbody user db] by auto
  show ?co
    using o by (auto split: option.splits if_splits sum.splits)
  show ?ca
    using c by (auto split: option.splits if_splits)
  show ?dep_fail
    using p by (auto simp: confirm_deposit_def)
  show ?dep
    using p by (auto simp: confirm_deposit_def items_deposit)
  show ?del_sold
    using d by (auto split: option.splits if_splits)
  show ?del_fail
    using d by (auto split: option.splits if_splits)
  show ?del
    using d by (auto split: option.splits if_splits)
  show ?upd_fail
    using u by (auto split: option.splits if_splits)
  show ?upd
    using u by (auto simp: bad_status_def split: option.splits if_splits)
  show ?st
    by (simp add: apply_update_def)
  show ?pr
    by (simp add: apply_update_def)
  show ?qu
    by (simp add: apply_update_def)
qed

theorem item_status_transitions_witness:
  "fst (confirm_deposit sample_deposit bob sample_store) = Inr () \<and>
   map item_status (items (snd (confirm_deposit sample_deposit bob sample_store)))
     = [''sold'', ''sold'', ''active''] \<and>
   delete_item 2 alice sample_store = (Inl (HTTPException 409), sample_store) \<and>
   fst (delete_item 3 alice sample_store) = Inr () \<and>
   map item_status (items (snd (delete_item 3 alice sample_store)))
     = [''active'', ''sold'', ''cancelled''] \<and>
   (\<exists>r. fst (update_item 2 sample_update alice sample_store) = Inr r) \<and>
   map item_status (items (snd (update_item 2 sample_update alice sample_store)))
     = [''active'', ''active'', ''active''] \<and>
   map price_usdt (items (snd (update_item 2 sample_update alice sample_store)))
     = [5 / 2, 9, 1 / 8] \<and>
   snd (update_item 2 sample_update bob sample_store) = sample_store"
proof -
  note w = item_status_transitions
  have h1: "fst (confirm_deposit sample_deposit bob sample_store) = Inr ()"
    by (simp add: sample_defs wallet_defs)
  have fo: "find (\<lambda>r. order_id r = dc_order_id sample_deposit) (orders sample_store) =
     Some \<lparr>order_id = 1, buyer_id = 2, order_item_id = 1, order_quantity = 2,
          amount_usdt = 5, order_network = ''polygon'',
          payment_address = ''0x00'', order_status = ''pending'', order_tx_hash = None\<rparr>"
    by (simp add: sample_defs)
  from w [where dbody = sample_deposit and user = bob and db = sample_store] h1 fo
  have "items (snd (confirm_deposit sample_deposit bob sample_store)) =
           map (\<lambda>i. if item_id i = 1 then i\<lparr>item_status := ''sold''\<rparr> else i)
               (items sample_store)"
    by auto
  then have 1: "map item_status (items (snd (confirm_deposit sample_deposit bob sample_store)))
     = [''sold'', ''sold'', ''active'']"
    by (simp add: sample_store_def)
  have f2: "find (\<lambda>i. item_id i = 2) (items sample_store) =
     Some \<lparr>item_id = 2, seller_id = 1, item_name = ''Refined Metal'',
          item_type = ''metal'', price_usdt = 1 / 8, item_quantity = 10,
          item_network = ''bsc'', item_status = ''sold''\<rparr>"
    by (simp add: sample_defs)
  from w [where iid = 2 and user = alice and db = sample_store] f2
  have 2: "delete_item 2 alice sample_store = (Inl (HTTPException 409), sample_store)"
    by (simp add: alice_def)
  have h3: "fst (delete_item 3 alice sample_store) = Inr ()"
    by (simp add: sample_defs item_defs)
  from w [where iid = 3 and user = alice and db = sample_store] h3
  have "items (snd (delete_item 3 alice sample_store)) =
        map (\<lambda>i. if item_id i = 3 then i\<lparr>item_status := ''cancelled''\<rparr> else i)
          (items sample_store)"
    by blast
  then have 3: "map item_status (items (snd (delete_item 3 alice sample_store)))
     = [''active'', ''sold'', ''cancelled'']"
    by (simp add: sample_store_def)
  have h4: "\<exists>r. fst (update_item 2 sample_update alice sample_store) = Inr r"
    by (simp add: sample_defs item_defs)
  from w [where iid = 2 and body = sample_update and user = alice and db = sample_store] h4
  have "items (snd (update_item 2 sample_update alice sample_store)) =
        map (\<lambda>i. if item_id i = 2 then apply_update sample_update i else i) (items sample_store)"
    by blast
  then have 4: "map item_status (items (snd (update_item 2 sample_update alice sample_store)))
     = [''active'', ''active'', ''active''] \<and>
   map price_usdt (items (snd (update_item 2 sample_update alice sample_store)))
     = [5 / 2, 9, 1 / 8]"
    by (simp add: sample_store_def apply_update_def sample_update_def)
  have h5: "fst (update_item 2 sample_update bob sample_store) = Inl (HTTPException 403)"
    by (simp add: sample_defs item_defs)
  from w [where iid = 2 and body = sample_update and user = bob and db = sample_store] h5
  have 5: "snd (update_item 2 sample_update bob sample_store) = sample_store"
    by blast
  from h1 1 2 h3 3 h4 4 5 show ?thesis by blast
qed


section \<open>Properties of the watchlist service\<close>

subsection \<open>Watchlist table and stats URL\<close>

lemma fold_max_ge: "x \<in> set ids \<Longrightarrow> x \<le> fold max ids (0::int)"
proof -
  assume "x \<in> set ids"
  then have "x \<le> Max (set (0 # ids))"
    by (intro Max_ge) auto
  then show ?thesis
    by (simp only: Max.set_eq_fold)
qed

lemma last_dropWhile: "dropWhile P xs \<noteq> [] \<Longrightarrow> last (dropWhile P xs) = last xs"
  by (induction xs) (auto split: if_splits)

lemma strip_idem: "strip (strip s) = strip s"
proof -
  let ?t = "dropWhile py_isspace s"
  let ?u = "rev (dropWhile py_isspace (rev ?t))"
  have "dropWhile py_isspace ?u = ?u"
  proof (cases "?u = []")
    case True
    then show ?thesis by (metis dropWhile.simps(1))
  next
    case False
    then have ne: "dropWhile py_isspace (rev ?t) \<noteq> []" by simp
    then have t: "?t \<noteq> []" by (metis dropWhile.simps(1) rev.simps(1))
    have "hd ?u = last (dropWhile py_isspace (rev ?t))"
      using ne by (simp add: hd_rev)
    also have "\<dots> = last (rev ?t)"
      using ne by (rule last_dropWhile)
    also have "\<dots> = hd ?t"
      using t by (simp add: last_rev)
    finally have "\<not> py_isspace (hd ?u)"
      using t hd_dropWhile [of py_isspace s] by simp
    with False show ?thesis
      by (cases ?u) auto
  qed
  then show ?thesis
    by (simp add: strip_def)
qed

lemma length_strip: "length (strip s) \<le> length s"
proof -
  have "length (strip s) \<le> length (dropWhile py_isspace s)"
    unfolding strip_def length_rev by (metis length_dropWhile_le length_rev)
  also have "\<dots> \<le> length s"
    by (rule length_dropWhile_le)
  finally show ?thesis .
qed

lemma split_not_Nil: "split c w \<noteq> []"
  by (induction w) (auto split: list.splits)

lemma split_total_length: "length (concat (split c w)) + length (split c w) = length w + 1"
proof (induction w)
  case Nil
  then show ?case by simp
next
  case (Cons x w)
  then show ?case
    using split_not_Nil [of c w] by (cases "split c w") auto
qed

lemma split_length:
  assumes "split c w = a # b # rest"
  shows "length a + length b + 1 \<le> length w"
  using split_total_length [of c w] by (simp add: assms)

lemma SKU_PATTERN_match_length: "SKU_PATTERN_match v \<Longrightarrow> 3 \<le> length v"
proof -
  assume m: "SKU_PATTERN_match v"
  let ?w = "if v \<noteq> [] \<and> last v = 10 then butlast v else v"
  from m obtain a b rest where s: "split (ord CHR '';'') ?w = a # b # rest"
    and ne: "a \<noteq> []" "b \<noteq> []"
    unfolding SKU_PATTERN_match_def by (auto split: list.splits)
  from split_length [OF s] ne have "3 \<le> length ?w"
    by (cases a; cases b) auto
  moreover have "length ?w \<le> length v" by simp
  ultimately show ?thesis by linarith
qed

lemma model_validate_again:
  assumes "model_validate sku0 name0 price note0 = Inr payload"
    and "2 \<le> length (name payload)"
  shows "model_validate (sku payload) (name payload) (target_price_ref payload)
           (wl_note payload) = Inr payload"
proof -
  from assms(1) have f: "sku payload = strip sku0" "name payload = strip name0"
      "target_price_ref payload = price" "wl_note payload = note0"
    and c: "SKU_PATTERN_match (strip sku0)" "length sku0 \<le> 64" "length name0 \<le> 120"
      "\<not> contains (str_of ''  '') (strip name0)" "0 < price" "price \<le> 100000"
      "(case note0 of None \<Rightarrow> False | Some t \<Rightarrow> 300 < length t) = False"
    by (auto simp: model_validate_def validate_sku_def validate_name_def
        split: if_splits sum.splits)
  have p: "payload = \<lparr>sku = strip sku0, name = strip name0, target_price_ref = price,
      wl_note = note0\<rparr>"
    using f by (cases payload) simp
  have l: "3 \<le> length (strip sku0)" "length (strip sku0) \<le> 64" "length (strip name0) \<le> 120"
    using SKU_PATTERN_match_length [OF c(1)] length_strip [of sku0] length_strip [of name0] c(2,3)
    by linarith+
  from assms(2) f have n: "2 \<le> length (strip name0)" by simp
  show ?thesis
    unfolding f
    using c l n
    by (simp add: model_validate_def validate_sku_def validate_name_def strip_idem p)
qed

text \<open>
  Outside the failing names, Create and Read agree: for a validated entry whose name has
  kept two characters, a sku that is not in the table and an id that is still available,
  Create stores the entry under a new id and returns it, and Read of that id returns the
  identical entry.
\<close>

lemma create_item_then_get_item:
  assumes v: "model_validate sku0 name0 price note0 = Inr payload"
    and n: "2 \<le> length (name payload)"
    and new: "sku payload \<notin> set (map row_sku (watchlist db))"
    and room: "max (sqlite_sequence db) (fold max (map row_id (watchlist db)) 0)
                 < 9223372036854775807"
  shows "\<exists>item. fst (create_item payload db) = Inr item \<and>
           sku item = sku payload \<and> name item = name payload \<and>
           target_price_ref item = target_price_ref payload \<and>
           wl_note item = wl_note payload \<and>
           watch_id item \<notin> set (map row_id (watchlist db)) \<and>
           watchlist (snd (create_item payload db)) =
             watchlist db @ [(watch_id item, sku payload, name payload,
                              target_price_ref payload, wl_note payload)] \<and>
           get_item (watch_id item) (snd (create_item payload db)) =
             (Inr item, snd (create_item payload db))"
proof -
  let ?iid = "max (sqlite_sequence db) (fold max (map row_id (watchlist db)) 0) + 1"
  let ?row = "(?iid, sku payload, name payload, target_price_ref payload, wl_note payload)"
  let ?item = "\<lparr>sku = sku payload, name = name payload,
      target_price_ref = target_price_ref payload, wl_note = wl_note payload,
      watch_id = ?iid\<rparr>"
  let ?db = "db\<lparr>watchlist := watchlist db @ [?row], sqlite_sequence := ?iid\<rparr>"
  have r: "row_to_item ?row = Inr ?item"
    using model_validate_again [OF v n] by (simp add: row_to_item_def)
  have fresh: "?iid \<notin> set (map row_id (watchlist db))"
    using fold_max_ge [of ?iid "map row_id (watchlist db)"] by auto
  have "find (\<lambda>row. row_id row = ?iid) (watchlist db) = None"
    using fold_max_ge [of _ "map row_id (watchlist db)"]
    by (fastforce simp: find_None_iff)
  then have f: "find (\<lambda>row. row_id row = ?iid) (watchlist db @ [?row]) = Some ?row"
    by (rule find_append_new) (simp add: row_id_def)
  have nroom: "\<not> 9223372036854775807
      \<le> max (sqlite_sequence db) (fold max (map row_id (watchlist db)) 0)"
    using room by linarith
  have c: "create_item payload db = (Inr ?item, ?db)"
    using new f r by (simp add: create_item_def Let_def nroom)
  have g: "get_item ?iid ?db = (Inr ?item, ?db)"
    using f r by (simp add: get_item_def)
  show ?thesis
  proof (rule exI [of _ ?item], intro conjI)
    show "get_item (watch_id ?item) (snd (create_item payload db)) =
             (Inr ?item, snd (create_item payload db))"
      using g by (simp add: c)
    show "watch_id ?item \<notin> set (map row_id (watchlist db))"
      using fresh by simp
  qed (simp_all add: c)
qed

text \<open>
  C9 fails on the code. A request with sku \<^verbatim>\<open>9;9\<close>, the two-character name \<^verbatim>\<open>" A"\<close> and
  price 0.5 is valid: the length of the name is checked before \<^verbatim>\<open>validate_name\<close> strips
  it, and the handler receives the name \<^verbatim>\<open>"A"\<close>. \<^verbatim>\<open>create_item\<close> commits the row under
  id 7 and then raises \<^verbatim>\<open>ValidationError\<close>, because \<^verbatim>\<open>row_to_item\<close> builds a
  \<^verbatim>\<open>WatchlistItem\<close> whose name must have two characters; Read of id 7 raises it too, and
  Create of the same entry again answers 409. With the name \<^verbatim>\<open>Refined Metal\<close> Create
  returns the entry and Read of its id returns the identical entry; Create with the sku
  \<^verbatim>\<open>5021;6\<close>, which is present, answers 409 and leaves the table as it was.
\<close>

theorem create_item_stores_unreadable_name:
  "model_validate (str_of ''9;9'') (str_of '' A'') (1 / 2) None =
     Inr \<lparr>sku = str_of ''9;9'', name = str_of ''A'', target_price_ref = 1 / 2,
          wl_note = None\<rparr> \<and>
   create_item \<lparr>sku = str_of ''9;9'', name = str_of ''A'', target_price_ref = 1 / 2,
                wl_note = None\<rparr> sample_watchlist =
     (Inl ValidationError,
      \<lparr>watchlist = watchlist sample_watchlist @ [(7, str_of ''9;9'', str_of ''A'', 1 / 2, None)],
       sqlite_sequence = 7\<rparr>) \<and>
   get_item 7
     \<lparr>watchlist = watchlist sample_watchlist @ [(7, str_of ''9;9'', str_of ''A'', 1 / 2, None)],
      sqlite_sequence = 7\<rparr> =
     (Inl ValidationError,
      \<lparr>watchlist = watchlist sample_watchlist @ [(7, str_of ''9;9'', str_of ''A'', 1 / 2, None)],
       sqlite_sequence = 7\<rparr>) \<and>
   create_item \<lparr>sku = str_of ''9;9'', name = str_of ''A'', target_price_ref = 1 / 2,
                wl_note = None\<rparr>
     \<lparr>watchlist = watchlist sample_watchlist @ [(7, str_of ''9;9'', str_of ''A'', 1 / 2, None)],
      sqlite_sequence = 7\<rparr> =
     (Inl (HTTPException 409),
      \<lparr>watchlist = watchlist sample_watchlist @ [(7, str_of ''9;9'', str_of ''A'', 1 / 2, None)],
       sqlite_sequence = 7\<rparr>) \<and>
   model_validate (str_of ''9;9'') (str_of '' Refined Metal '') (1 / 2) None =
     Inr \<lparr>sku = str_of ''9;9'', name = str_of ''Refined Metal'', target_price_ref = 1 / 2,
          wl_note = None\<rparr> \<and>
   create_item \<lparr>sku = str_of ''9;9'', name = str_of ''Refined Metal'',
                target_price_ref = 1 / 2, wl_note = None\<rparr> sample_watchlist =
     (Inr \<lparr>sku = str_of ''9;9'', name = str_of ''Refined Metal'', target_price_ref = 1 / 2,
           wl_note = None, watch_id = 7\<rparr>,
      \<lparr>watchlist = watchlist sample_watchlist @
         [(7, str_of ''9;9'', str_of ''Refined Metal'', 1 / 2, None)],
       sqlite_sequence = 7\<rparr>) \<and>
   get_item 7
     \<lparr>watchlist = watchlist sample_watchlist @
        [(7, str_of ''9;9'', str_of ''Refined Metal'', 1 / 2, None)],
      sqlite_sequence = 7\<rparr> =
     (Inr \<lparr>sku = str_of ''9;9'', name = str_of ''Refined Metal'', target_price_ref = 1 / 2,
           wl_note = None, watch_id = 7\<rparr>,
      \<lparr>watchlist = watchlist sample_watchlist @
         [(7, str_of ''9;9'', str_of ''Refined Metal'', 1 / 2, None)],
       sqlite_sequence = 7\<rparr>) \<and>
   create_item \<lparr>sku = str_of ''5021;6'', name = str_of ''Refined Metal'',
                target_price_ref = 1 / 2, wl_note = None\<rparr> sample_watchlist =
     (Inl (HTTPException 409), sample_watchlist)"
  by code_simp

text \<open>
  C8, as stated, fails: the table \<^verbatim>\<open>QUALITY_NAME_TO_ID\<close> holds 9 names, not 24.
\<close>

theorem quality_table_has_nine_names:
  "length QUALITY_NAME_TO_ID = 9 \<and> distinct (map fst QUALITY_NAME_TO_ID) \<and>
   card (fst ` set QUALITY_NAME_TO_ID) = 9 \<and> card (fst ` set QUALITY_NAME_TO_ID) \<noteq> 24"
proof -
  have l: "length QUALITY_NAME_TO_ID = 9"
    by (simp add: QUALITY_NAME_TO_ID_def)
  have d: "distinct (map fst QUALITY_NAME_TO_ID)"
    by code_simp
  from distinct_card [OF d] l have "card (fst ` set QUALITY_NAME_TO_ID) = 9"
    by simp
  with l d show ?thesis by simp
qed

text \<open>
  C8, amended. The parser looks the url-decoded quality segment up in a fixed table of 9
  names. Whether the parser accepts a URL does not depend on the table: once the host is
  accepted and the path has at least five segments starting with \<^verbatim>\<open>stats\<close>, it
  returns a result, whose quality is absent when the name is not in the table, provided
  that a sixth segment which decodes to a string of digits is one \<^verbatim>\<open>int\<close> converts. On
  the example URL it yields quality 5, item name Conquistador, tradable 1, craftable 1 and
  particle 89.
\<close>

theorem stats_url_quality_lookup:
  "length QUALITY_NAME_TO_ID = 9 \<and> distinct (map fst QUALITY_NAME_TO_ID) \<and>
   (\<forall>r. parse_bptf_stats_url lib url = Inr r \<longrightarrow>
      sq_quality r = map_of QUALITY_NAME_TO_ID (sq_quality_name r)) \<and>
   (\<forall>parts. stats_url_parts lib url = Inr parts \<and> 5 \<le> length parts \<and>
        parts ! 0 = str_of ''stats'' \<and>
        (length parts < 6 \<or> \<not> isdigit lib (unquote (parts ! 5)) \<or>
         (\<exists>n. int_of_digits lib (unquote (parts ! 5)) = Inr n)) \<longrightarrow>
      (\<exists>r. parse_bptf_stats_url lib url = Inr r \<and>
         sq_quality_name r = unquote (parts ! 1) \<and>
         (unquote (parts ! 1) \<notin> fst ` set QUALITY_NAME_TO_ID \<longrightarrow> sq_quality r = None))) \<and>
   parse_bptf_stats_url lib example_stats_url =
     Inr \<lparr>sq_item_name = str_of ''Conquistador'', sq_quality = Some 5, sq_tradable = 1,
          sq_craftable = 1, sq_particle = Some 89, sq_quality_name = str_of ''Unusual'',
          sq_tradable_seg = str_of ''Tradable'', sq_craftable_seg = str_of ''Craftable''\<rparr>"
  (is "?len \<and> ?dist \<and> ?lookup \<and> ?unknown \<and> ?example")
proof (intro conjI)
  show ?len
    by (simp add: QUALITY_NAME_TO_ID_def)
  show ?dist
    by code_simp
  show ?lookup
    by (auto simp: parse_bptf_stats_url_def Let_def split: sum.splits if_splits)
  show ?unknown
    by (auto simp: parse_bptf_stats_url_def Let_def map_of_eq_None_iff split: sum.splits)
  show ?example
    by code_simp
qed

theorem stats_url_quality_lookup_witness:
  "stats_url_parts sample_unicode
     (str_of ''http://www.backpack.tf/stats/Foo%20Bar/A%2fB/tradable/x/12'')
     = Inr [str_of ''stats'', str_of ''Foo%20Bar'', str_of ''A%2fB'', str_of ''tradable'',
            str_of ''x'', str_of ''12''] \<and>
   (\<exists>r. parse_bptf_stats_url sample_unicode
           (str_of ''http://www.backpack.tf/stats/Foo%20Bar/A%2fB/tradable/x/12'') = Inr r \<and>
        sq_quality_name r = str_of ''Foo Bar'' \<and> sq_quality r = None) \<and>
   (\<exists>r. parse_bptf_stats_url sample_unicode example_stats_url = Inr r \<and>
        sq_quality r = Some 5) \<and>
   parse_bptf_stats_url sample_unicode
     (str_of ''http://www.backpack.tf/stats/Foo%20Bar/A%2fB/tradable/x/12'') =
     Inr \<lparr>sq_item_name = str_of ''A/B'', sq_quality = None, sq_tradable = 1,
          sq_craftable = 0, sq_particle = Some 12, sq_quality_name = str_of ''Foo Bar'',
          sq_tradable_seg = str_of ''tradable'', sq_craftable_seg = str_of ''x''\<rparr> \<and>
   unquote (str_of ''%FF'') = [65533] \<and>
   unquote (str_of ''%C2%B2'') = [178] \<and>
   unquote (str_of ''%D9%A3'') = [1635] \<and>
   sq_particle
     (projr (parse_bptf_stats_url sample_unicode
        (str_of ''https://backpack.tf/stats/Unusual/Conquistador/Tradable/Craftable/%D9%A3'')))
     = Some 3 \<and>
   parse_bptf_stats_url sample_unicode
     (str_of ''https://backpack.tf/stats/Unusual/Conquistador/Tradable/Craftable/%C2%B2'')
     = Inl ValueError"
proof -
  let ?url = "str_of ''http://www.backpack.tf/stats/Foo%20Bar/A%2fB/tradable/x/12''"
  note w = stats_url_quality_lookup [where lib = sample_unicode]
  have p: "stats_url_parts sample_unicode ?url
     = Inr [str_of ''stats'', str_of ''Foo%20Bar'', str_of ''A%2fB'', str_of ''tradable'',
            str_of ''x'', str_of ''12'']"
    by code_simp
  have u: "unquote (str_of ''Foo%20Bar'') = str_of ''Foo Bar''"
    by code_simp
  have n: "str_of ''Foo Bar'' \<notin> fst ` set QUALITY_NAME_TO_ID"
    by code_simp
  have i: "int_of_digits sample_unicode (unquote (str_of ''12'')) = Inr 12"
    by code_simp
  from w [where url = ?url] p u n i
  have 1: "\<exists>r. parse_bptf_stats_url sample_unicode ?url = Inr r \<and>
        sq_quality_name r = str_of ''Foo Bar'' \<and> sq_quality r = None"
    by auto
  from w [where url = example_stats_url]
  have 2: "\<exists>r. parse_bptf_stats_url sample_unicode example_stats_url = Inr r \<and>
        sq_quality r = Some 5"
    by simp
  have 3: "parse_bptf_stats_url sample_unicode ?url =
     Inr \<lparr>sq_item_name = str_of ''A/B'', sq_quality = None, sq_tradable = 1,
          sq_craftable = 0, sq_particle = Some 12, sq_quality_name = str_of ''Foo Bar'',
          sq_tradable_seg = str_of ''tradable'', sq_craftable_seg = str_of ''x''\<rparr>"
    by code_simp
  have 4: "unquote (str_of ''%FF'') = [65533]" "unquote (str_of ''%C2%B2'') = [178]"
    "unquote (str_of ''%D9%A3'') = [1635]"
    by code_simp+
  have 5: "sq_particle
     (projr (parse_bptf_stats_url sample_unicode
        (str_of ''https://backpack.tf/stats/Unusual/Conquistador/Tradable/Craftable/%D9%A3'')))
     = Some 3"
    by code_simp
  have 6: "parse_bptf_stats_url sample_unicode
     (str_of ''https://backpack.tf/stats/Unusual/Conquistador/Tradable/Craftable/%C2%B2'')
     = Inl ValueError"
    by code_simp
  from p 1 2 3 4 5 6 show ?thesis by blast
qed

subsection \<open>Listings normaliser\<close>

lemma py_eq_num:
  "num_of a = Some x \<Longrightarrow> num_of b = Some y \<Longrightarrow> py_eq a b = (x = y)"
  by (cases a; cases b) auto

lemma py_lt_num:
  "num_of a = Some x \<Longrightarrow> num_of b = Some y \<Longrightarrow> py_lt a b = Inr (x < y)"
  by (cases a; cases b) auto

lemma py_eq_str: "py_eq i (JStr s) = (i = JStr s)"
  by (cases i) auto

lemma normalize_intent_sell:
  "py_eq (normalize_intent i) (JStr ''sell'') = (intent_side i = Some Sell)"
  by (cases i) (auto simp: normalize_intent_def py_eq_str)

lemma normalize_intent_buy:
  "py_eq (normalize_intent i) (JStr ''buy'') = (intent_side i = Some Buy)"
  by (cases i) (auto simp: normalize_intent_def py_eq_str)

lemma listing_price_well_shaped:
  "well_shaped lst \<Longrightarrow> listing_price lst = Inr (price_of lst)"
  by (cases "get_or_null lst ''currencies''")
     (auto simp: well_shaped_def listing_price_def dict_get_def price_of_def Let_def
           split: if_splits)

lemma partition_listings_well_shaped:
  "list_all well_shaped ls \<Longrightarrow>
   partition_listings ls sells buys =
     Inr (sells @ map price_of (filter (\<lambda>l. side_of l = Some Sell) ls),
          buys @ map price_of (filter (\<lambda>l. side_of l = Some Buy) ls))"
proof (induction ls arbitrary: sells buys)
  case Nil
  then show ?case by simp
next
  case (Cons l ls)
  then have w: "well_shaped l" and r: "list_all well_shaped ls" by simp_all
  from w have g: "dict_get l ''intent'' = Inr (get_or_null l ''intent'')"
    by (simp add: well_shaped_def dict_get_def)
  show ?case
    by (simp add: g listing_price_well_shaped [OF w] Cons.IH [OF r]
        normalize_intent_sell normalize_intent_buy side_of_def)
qed

lemma sort_key_num:
  assumes "numeric_price p"
  shows "num_of (fst (sort_key p)) = Some (fst (price_key p))"
    and "num_of (snd (sort_key p)) = Some (snd (price_key p))"
proof -
  have n: "number_or_null x \<Longrightarrow>
      num_of (if x \<noteq> JNull then x else JInt (10 ^ 9)) = Some (key_value x)" for x
    by (cases x) auto
  from assms show "num_of (fst (sort_key p)) = Some (fst (price_key p))"
    and "num_of (snd (sort_key p)) = Some (snd (price_key p))"
    by (simp_all add: numeric_price_def sort_key_def price_key_def n)
qed

lemma tuple_lt_numeric:
  assumes "numeric_price p" "numeric_price q"
  shows "tuple_lt (sort_key p) (sort_key q) = Inr (lex_less (price_key p) (price_key q))"
proof -
  obtain a b where p: "sort_key p = (a, b)" by (cases "sort_key p")
  obtain c d where q: "sort_key q = (c, d)" by (cases "sort_key q")
  obtain a' b' where p': "price_key p = (a', b')" by (cases "price_key p")
  obtain c' d' where q': "price_key q = (c', d')" by (cases "price_key q")
  from sort_key_num [OF assms(1)] p p' have 1: "num_of a = Some a'" "num_of b = Some b'"
    by simp_all
  from sort_key_num [OF assms(2)] q q' have 2: "num_of c = Some c'" "num_of d = Some d'"
    by simp_all
  show ?thesis
    by (auto simp: p q p' q' py_eq_num [OF 1(1) 2(1)] py_eq_num [OF 1(2) 2(2)]
        py_lt_num [OF 1(1) 2(1)] py_lt_num [OF 1(2) 2(2)])
qed

lemma tuple_gt_numeric:
  assumes "numeric_price p" "numeric_price q"
  shows "tuple_gt (sort_key p) (sort_key q) = Inr (lex_less (price_key q) (price_key p))"
proof -
  obtain a b where p: "sort_key p = (a, b)" by (cases "sort_key p")
  obtain c d where q: "sort_key q = (c, d)" by (cases "sort_key q")
  obtain a' b' where p': "price_key p = (a', b')" by (cases "price_key p")
  obtain c' d' where q': "price_key q = (c', d')" by (cases "price_key q")
  from sort_key_num [OF assms(1)] p p' have 1: "num_of a = Some a'" "num_of b = Some b'"
    by simp_all
  from sort_key_num [OF assms(2)] q q' have 2: "num_of c = Some c'" "num_of d = Some d'"
    by simp_all
  show ?thesis
    by (auto simp: p q p' q' py_eq_num [OF 1(1) 2(1)] py_eq_num [OF 1(2) 2(2)]
        py_lt_num [OF 2(1) 1(1)] py_lt_num [OF 2(2) 1(2)])
qed

lemma lex_le_refl: "lex_le k k"
  by (cases k) simp

lemma lex_le_trans: "lex_le a b \<Longrightarrow> lex_le b c \<Longrightarrow> lex_le a c"
  by (cases a; cases b; cases c) auto

lemma lex_less_le: "lex_less a b \<Longrightarrow> lex_le a b"
  by (cases a; cases b) auto

lemma not_lex_less: "\<not> lex_less a b \<Longrightarrow> lex_le b a"
  by (cases a; cases b) auto

lemma py_min_numeric:
  "numeric_price best \<Longrightarrow> list_all numeric_price ps \<Longrightarrow>
   \<exists>p. py_min best ps = Inr p \<and> p \<in> set (best # ps) \<and>
       lex_le (price_key p) (price_key best) \<and>
       list_all (\<lambda>q. lex_le (price_key p) (price_key q)) ps"
proof (induction ps arbitrary: best)
  case Nil
  then show ?case by (simp add: lex_le_refl)
next
  case (Cons x xs)
  then have nx: "numeric_price x" and nxs: "list_all numeric_price xs" by simp_all
  let ?b = "lex_less (price_key x) (price_key best)"
  let ?next = "if ?b then x else best"
  have nn: "numeric_price ?next" using nx Cons.prems(1) by simp
  from Cons.IH [OF nn nxs] obtain p where
    p: "py_min ?next xs = Inr p" "p \<in> set (?next # xs)"
      "lex_le (price_key p) (price_key ?next)"
      "list_all (\<lambda>q. lex_le (price_key p) (price_key q)) xs"
    by blast
  have step: "py_min best (x # xs) = py_min ?next xs"
    by (simp add: tuple_lt_numeric [OF nx Cons.prems(1)])
  have b: "lex_le (price_key ?next) (price_key best)"
    by (simp add: lex_less_le lex_le_refl)
  have x: "lex_le (price_key ?next) (price_key x)"
    by (simp add: not_lex_less lex_le_refl)
  from p b x show ?case
    unfolding step
    by (intro exI [of _ p]) (auto intro: lex_le_trans split: if_splits)
qed

lemma py_max_numeric:
  "numeric_price best \<Longrightarrow> list_all numeric_price ps \<Longrightarrow>
   \<exists>p. py_max best ps = Inr p \<and> p \<in> set (best # ps) \<and>
       lex_le (price_key best) (price_key p) \<and>
       list_all (\<lambda>q. lex_le (price_key q) (price_key p)) ps"
proof (induction ps arbitrary: best)
  case Nil
  then show ?case by (simp add: lex_le_refl)
next
  case (Cons x xs)
  then have nx: "numeric_price x" and nxs: "list_all numeric_price xs" by simp_all
  let ?b = "lex_less (price_key best) (price_key x)"
  let ?next = "if ?b then x else best"
  have nn: "numeric_price ?next" using nx Cons.prems(1) by simp
  from Cons.IH [OF nn nxs] obtain p where
    p: "py_max ?next xs = Inr p" "p \<in> set (?next # xs)"
      "lex_le (price_key ?next) (price_key p)"
      "list_all (\<lambda>q. lex_le (price_key q) (price_key p)) xs"
    by blast
  have step: "py_max best (x # xs) = py_max ?next xs"
    by (simp add: tuple_gt_numeric [OF nx Cons.prems(1)])
  have b: "lex_le (price_key best) (price_key ?next)"
    by (simp add: lex_less_le lex_le_refl)
  have x: "lex_le (price_key x) (price_key ?next)"
    by (simp add: not_lex_less lex_le_refl)
  from p b x show ?case
    unfolding step
    by (intro exI [of _ p]) (auto intro: lex_le_trans split: if_splits)
qed

lemma lowest_numeric:
  assumes "list_all numeric_price ps"
  shows "\<exists>lo. lowest ps = Inr lo \<and>
     (case lo of None \<Rightarrow> ps = []
      | Some p \<Rightarrow> p \<in> set ps \<and> list_all (\<lambda>q. lex_le (price_key p) (price_key q)) ps)"
proof (cases ps)
  case Nil
  then show ?thesis by (simp add: lowest_def)
next
  case (Cons x xs)
  with assms have "numeric_price x" "list_all numeric_price xs" by simp_all
  from py_min_numeric [OF this] Cons show ?thesis
    by (auto simp: lowest_def)
qed

lemma highest_numeric:
  assumes "list_all numeric_price ps"
  shows "\<exists>hi. highest ps = Inr hi \<and>
     (case hi of None \<Rightarrow> ps = []
      | Some p \<Rightarrow> p \<in> set ps \<and> list_all (\<lambda>q. lex_le (price_key q) (price_key p)) ps)"
proof (cases ps)
  case Nil
  then show ?thesis by (simp add: highest_def)
next
  case (Cons x xs)
  with assms have "numeric_price x" "list_all numeric_price xs" by simp_all
  from py_max_numeric [OF this] Cons show ?thesis
    by (auto simp: highest_def)
qed

lemma spec_order_below_sentinel:
  assumes "below_sentinel p" "below_sentinel q"
  shows "lex_less (price_key p) (price_key q) = spec_less p q"
proof -
  have k: "(key_value x < key_value y) = ext_less (spec_value x) (spec_value y) \<and>
      (key_value x = key_value y) = (spec_value x = spec_value y)"
    if "number_or_null x" "number_or_null y"
      "x = JNull \<or> key_value x < 10 ^ 9" "y = JNull \<or> key_value y < 10 ^ 9" for x y
    using that by (cases x; cases y) (auto split: if_splits)
  from assms have p: "number_or_null (keys p)" "number_or_null (metal p)"
      "keys p = JNull \<or> key_value (keys p) < 10 ^ 9"
      "metal p = JNull \<or> key_value (metal p) < 10 ^ 9"
    and q: "number_or_null (keys q)" "number_or_null (metal q)"
      "keys q = JNull \<or> key_value (keys q) < 10 ^ 9"
      "metal q = JNull \<or> key_value (metal q) < 10 ^ 9"
    unfolding below_sentinel_def numeric_price_def by blast+
  from k [OF p(1) q(1) p(3) q(3)] k [OF p(2) q(2) p(4) q(4)] show ?thesis
    by (simp add: price_key_def spec_less_def)
qed

lemma extract_listings_total_aux: "\<exists>ls. extract_listings data = Inr ls"
proof (cases data)
  case (JDict kvs)
  have l: "\<exists>ls. listings_of (JDict a) = Inr ls" for a
    by (simp add: listings_of_def dict_get_def)
  have r: "\<exists>ls. results_dict (JDict a) = Inr ls" for a
    using l [of a] by (auto simp: results_dict_def split: bool.splits)
  have w: "\<exists>ls. extract_wrapper x = Inr ls" for x
  proof (cases x)
    case (JDict a)
    show ?thesis
    proof (cases "get_or_null (JDict a) ''results''")
      case (JDict b)
      with r [of b] l [of a] show ?thesis
        unfolding \<open>x = JDict a\<close> by (auto simp: extract_wrapper_def dict_get_def split: bool.splits)
    qed (use l [of a] in \<open>auto simp: extract_wrapper_def dict_get_def \<open>x = JDict a\<close> split: bool.splits\<close>)
  qed (simp_all add: extract_wrapper_def)
  show ?thesis
  proof (cases "get_or_null (JDict kvs) ''results''")
    case (JDict b)
    with r [of b] l [of kvs] show ?thesis
      unfolding \<open>data = JDict kvs\<close> by (auto simp: extract_listings_def dict_get_def split: bool.splits)
  qed (use l [of kvs] w in \<open>auto simp: extract_listings_def dict_get_def \<open>data = JDict kvs\<close> split: bool.splits\<close>)
qed (simp_all add: extract_listings_def)

lemma extract_listings_lacking:
  "lacks_listings data \<Longrightarrow> extract_listings data = Inr []"
proof (cases data)
  case (JDict kvs)
  assume a: "lacks_listings data"
  show ?thesis
  proof (cases "''listings'' \<in> set (map fst kvs)")
    case True
    with a JDict have "\<not> container (get_or_null (JDict kvs) ''listings'')" by simp
    then have "as_list (get_or_null (JDict kvs) ''listings'') = []"
      by (cases "get_or_null (JDict kvs) ''listings''") (simp_all add: container_def)
    with True show ?thesis
      by (simp add: JDict extract_listings_def listings_of_def dict_get_def del: get_or_null.simps)
  next
    case False
    with a JDict have r: "\<not> container (get_or_null (JDict kvs) ''results'')"
      and d: "\<not> container (get_or_null (JDict kvs) ''data'')" by simp_all
    from d have "extract_wrapper (get_or_null (JDict kvs) ''data'') = Inr []"
      by (cases "get_or_null (JDict kvs) ''data''") (simp_all add: container_def extract_wrapper_def)
    with False r show ?thesis
      by (cases "get_or_null (JDict kvs) ''results''")
         (simp_all add: JDict extract_listings_def dict_get_def container_def
            del: get_or_null.simps)
  qed
qed (simp_all add: extract_listings_def)

lemmas listing_defs = market_listings_def extract_listings_def extract_wrapper_def
  results_dict_def listings_of_def dict_get_def listing_price_def normalize_intent_def
  sort_key_def lowest_def highest_def Let_def

text \<open>
  C6, as stated, fails: a missing component is compared as \<open>10\<^sup>9\<close>, not as \<open>+\<infinity>\<close>. Of the
  two sell prices (keys missing, metal 5) and (keys 2000000000, metal 1) the second is the
  smaller one when a missing value counts as \<open>+\<infinity>\<close>, and the first is returned.
\<close>

theorem lowest_sell_uses_sentinel:
  "extract_listings sentinel_payload =
     Inr [JDict [(''intent'', JStr ''sell''), (''currencies'', JDict [(''metal'', JInt 5)])],
          JDict [(''intent'', JStr ''sell''),
                 (''currencies'', JDict [(''keys'', JInt 2000000000), (''metal'', JInt 1)])]] \<and>
   market_listings sentinel_payload =
     Inr \<lparr>sell_count = 2, buy_count = 0,
          lowest_sell = Some \<lparr>keys = JNull, metal = JInt 5\<rparr>, highest_buy = None\<rparr> \<and>
   spec_less \<lparr>keys = JInt 2000000000, metal = JInt 1\<rparr> \<lparr>keys = JNull, metal = JInt 5\<rparr>"
  by (simp add: listing_defs sentinel_payload_def spec_less_def)

text \<open>
  C6, amended. When every extracted listing is an object whose currencies are an object
  (or missing or falsy) and whose keys and metal are numbers or missing, the normaliser
  puts a listing with the integer intent 0 (or Python's \<^verbatim>\<open>False\<close>) or the string
  \<^verbatim>\<open>buy\<close> among the buys, one with any other integer (or \<^verbatim>\<open>True\<close>) or the string
  \<^verbatim>\<open>sell\<close> among the sells, and drops the others; \<open>lowest_sell\<close> is a sell price with the
  lexicographically smallest (keys, metal) pair and \<open>highest_buy\<close> a buy price with the
  largest, a missing component counting as \<open>10\<^sup>9\<close>; both are absent exactly when the side
  is empty. For prices whose components are below \<open>10\<^sup>9\<close> this is the order in which a
  missing component counts as \<open>+\<infinity>\<close>. On the payload of the specification there are one buy
  and one sell, \<open>lowest_sell\<close> is (keys missing, metal 5) and \<open>highest_buy\<close> is (keys 1,
  metal 10).
\<close>

theorem market_listings_partition_and_extremes:
  "(extract_listings data = Inr ls \<and> list_all well_shaped ls \<and>
    list_all numeric_price (map price_of ls) \<longrightarrow>
      (\<exists>r. market_listings data = Inr r \<and>
         partition_listings ls [] [] = Inr (sells_of ls, buys_of ls) \<and>
         sell_count r = length (sells_of ls) \<and> buy_count r = length (buys_of ls) \<and>
         (case lowest_sell r of
            None \<Rightarrow> sells_of ls = []
          | Some p \<Rightarrow> p \<in> set (sells_of ls) \<and>
              list_all (\<lambda>q. lex_le (price_key p) (price_key q)) (sells_of ls)) \<and>
         (case highest_buy r of
            None \<Rightarrow> buys_of ls = []
          | Some p \<Rightarrow> p \<in> set (buys_of ls) \<and>
              list_all (\<lambda>q. lex_le (price_key q) (price_key p)) (buys_of ls)))) \<and>
   (below_sentinel p \<and> below_sentinel q \<longrightarrow>
      lex_less (price_key p) (price_key q) = spec_less p q) \<and>
   market_listings example_payload =
     Inr \<lparr>sell_count = 1, buy_count = 1,
          lowest_sell = Some \<lparr>keys = JNull, metal = JInt 5\<rparr>,
          highest_buy = Some \<lparr>keys = JInt 1, metal = JInt 10\<rparr>\<rparr>"
  (is "?general \<and> ?order \<and> ?example")
proof (intro conjI)
  show ?general
  proof (intro impI, elim conjE)
    assume e: "extract_listings data = Inr ls" and w: "list_all well_shaped ls"
      and n: "list_all numeric_price (map price_of ls)"
    have part: "partition_listings ls [] [] = Inr (sells_of ls, buys_of ls)"
      using partition_listings_well_shaped [OF w, of "[]" "[]"]
      by (simp add: sells_of_def buys_of_def)
    from n have ns: "list_all numeric_price (sells_of ls)"
      and nb: "list_all numeric_price (buys_of ls)"
      by (auto simp: sells_of_def buys_of_def list_all_iff)
    from lowest_numeric [OF ns] obtain lo where
      lo: "lowest (sells_of ls) = Inr lo"
        "case lo of None \<Rightarrow> sells_of ls = []
         | Some p \<Rightarrow> p \<in> set (sells_of ls) \<and>
              list_all (\<lambda>q. lex_le (price_key p) (price_key q)) (sells_of ls)"
      by blast
    from highest_numeric [OF nb] obtain hi where
      hi: "highest (buys_of ls) = Inr hi"
        "case hi of None \<Rightarrow> buys_of ls = []
         | Some p \<Rightarrow> p \<in> set (buys_of ls) \<and>
              list_all (\<lambda>q. lex_le (price_key q) (price_key p)) (buys_of ls)"
      by blast
    have "market_listings data =
        Inr \<lparr>sell_count = length (sells_of ls), buy_count = length (buys_of ls),
             lowest_sell = lo, highest_buy = hi\<rparr>"
      by (simp add: market_listings_def e part lo(1) hi(1))
    with part lo(2) hi(2) show "\<exists>r. market_listings data = Inr r \<and>
         partition_listings ls [] [] = Inr (sells_of ls, buys_of ls) \<and>
         sell_count r = length (sells_of ls) \<and> buy_count r = length (buys_of ls) \<and>
         (case lowest_sell r of
            None \<Rightarrow> sells_of ls = []
          | Some p \<Rightarrow> p \<in> set (sells_of ls) \<and>
              list_all (\<lambda>q. lex_le (price_key p) (price_key q)) (sells_of ls)) \<and>
         (case highest_buy r of
            None \<Rightarrow> buys_of ls = []
          | Some p \<Rightarrow> p \<in> set (buys_of ls) \<and>
              list_all (\<lambda>q. lex_le (price_key q) (price_key p)) (buys_of ls))"
      by simp
  qed
  show ?order
    using spec_order_below_sentinel by blast
  show ?example
    by (simp add: listing_defs example_payload_def)
qed

theorem market_listings_partition_and_extremes_witness:
  "extract_listings example_payload =
     Inr [JDict [(''intent'', JInt 0),
                 (''currencies'', JDict [(''keys'', JInt 1), (''metal'', JInt 10)])],
          JDict [(''intent'', JStr ''sell''), (''currencies'', JDict [(''metal'', JInt 5)])]] \<and>
   (\<exists>r. market_listings example_payload = Inr r \<and> sell_count r = 1 \<and> buy_count r = 1 \<and>
        lowest_sell r = Some \<lparr>keys = JNull, metal = JInt 5\<rparr> \<and>
        highest_buy r = Some \<lparr>keys = JInt 1, metal = JInt 10\<rparr>) \<and>
   lex_less (price_key \<lparr>keys = JInt 1, metal = JInt 10\<rparr>)
            (price_key \<lparr>keys = JNull, metal = JInt 5\<rparr>) \<and>
   spec_less \<lparr>keys = JInt 1, metal = JInt 10\<rparr> \<lparr>keys = JNull, metal = JInt 5\<rparr>"
proof -
  let ?l1 = "JDict [(''intent'', JInt 0),
                 (''currencies'', JDict [(''keys'', JInt 1), (''metal'', JInt 10)])]"
  let ?l2 = "JDict [(''intent'', JStr ''sell''), (''currencies'', JDict [(''metal'', JInt 5)])]"
  let ?p = "\<lparr>keys = JInt 1, metal = JInt 10\<rparr>"
  let ?q = "\<lparr>keys = JNull, metal = JInt 5\<rparr>"
  note w = market_listings_partition_and_extremes
  have e: "extract_listings example_payload = Inr [?l1, ?l2]"
    by (simp add: listing_defs example_payload_def)
  have s: "list_all well_shaped [?l1, ?l2]"
    by (simp add: well_shaped_def)
  have n: "list_all numeric_price (map price_of [?l1, ?l2])"
    by (simp add: numeric_price_def price_of_def)
  have sb: "sells_of [?l1, ?l2] = [?q]" "buys_of [?l1, ?l2] = [?p]"
    by (simp_all add: sells_of_def buys_of_def side_of_def price_of_def)
  from w [where data = example_payload and ls = "[?l1, ?l2]"] e s n
  obtain r where r: "market_listings example_payload = Inr r"
    "sell_count r = length (sells_of [?l1, ?l2])" "buy_count r = length (buys_of [?l1, ?l2])"
    "case lowest_sell r of
            None \<Rightarrow> sells_of [?l1, ?l2] = []
          | Some p \<Rightarrow> p \<in> set (sells_of [?l1, ?l2]) \<and>
              list_all (\<lambda>q. lex_le (price_key p) (price_key q)) (sells_of [?l1, ?l2])"
    "case highest_buy r of
            None \<Rightarrow> buys_of [?l1, ?l2] = []
          | Some p \<Rightarrow> p \<in> set (buys_of [?l1, ?l2]) \<and>
              list_all (\<lambda>q. lex_le (price_key q) (price_key p)) (buys_of [?l1, ?l2])"
    by blast
  from r(2-5) have 1: "sell_count r = 1 \<and> buy_count r = 1 \<and>
        lowest_sell r = Some ?q \<and> highest_buy r = Some ?p"
    unfolding sb by (auto split: option.splits)
  have b: "below_sentinel ?p" "below_sentinel ?q"
    by (simp_all add: below_sentinel_def numeric_price_def)
  have l: "lex_less (price_key ?p) (price_key ?q)"
    by (simp add: price_key_def)
  from w [where p = ?p and q = ?q] b l have 2: "spec_less ?p ?q"
    by blast
  from e r(1) 1 l 2 show ?thesis by blast
qed

text \<open>
  C7. The extraction of the listings never raises: it returns a list for every decoded
  payload. For a payload that is not an object, or an object that holds no list or object
  under \<^verbatim>\<open>listings\<close> or, without that key, under \<^verbatim>\<open>results\<close> and \<^verbatim>\<open>data\<close> (the empty
  object \<^verbatim>\<open>{}\<close> among them), the list is empty, and the normaliser then reports no sell
  and no buy, with both best prices absent.
\<close>

theorem extract_listings_never_raises:
  "(\<exists>ls. extract_listings data = Inr ls) \<and>
   (lacks_listings data \<longrightarrow>
      extract_listings data = Inr [] \<and>
      market_listings data =
        Inr \<lparr>sell_count = 0, buy_count = 0, lowest_sell = None, highest_buy = None\<rparr>) \<and>
   extract_listings (JDict []) = Inr []"
  (is "?amount \<and> ?empty \<and> ?braces")
proof (intro conjI)
  show ?amount
    by (rule extract_listings_total_aux)
  show ?empty
    using extract_listings_lacking [of data]
    by (simp add: market_listings_def lowest_def highest_def)
  show ?braces
    by (simp add: extract_listings_def extract_wrapper_def dict_get_def)
qed

theorem extract_listings_never_raises_witness:
  "lacks_listings (JDict []) \<and>
   market_listings (JDict []) =
     Inr \<lparr>sell_count = 0, buy_count = 0, lowest_sell = None, highest_buy = None\<rparr> \<and>
   lacks_listings (JDict [(''results'', JInt 3), (''data'', JStr ''listings'')]) \<and>
   extract_listings (JDict [(''results'', JInt 3), (''data'', JStr ''listings'')]) = Inr [] \<and>
   lacks_listings (JStr ''listings'') \<and>
   extract_listings (JStr ''listings'') = Inr [] \<and>
   (\<exists>ls. extract_listings example_payload = Inr ls)"
proof -
  note w = extract_listings_never_raises
  let ?d = "JDict [(''results'', JInt 3), (''data'', JStr ''listings'')]"
  have l: "lacks_listings (JDict [])" "lacks_listings ?d" "lacks_listings (JStr ''listings'')"
    by (simp_all add: container_def)
  from w [of "JDict []"] l(1) have 1: "market_listings (JDict []) =
     Inr \<lparr>sell_count = 0, buy_count = 0, lowest_sell = None, highest_buy = None\<rparr>"
    by blast
  from w [of ?d] l(2) have 2: "extract_listings ?d = Inr []"
    by blast
  from w [of "JStr ''listings''"] l(3) have 3: "extract_listings (JStr ''listings'') = Inr []"
    by blast
  from w [of example_payload] have 4: "\<exists>ls. extract_listings example_payload = Inr ls"
    by blast
  from l 1 2 3 4 show ?thesis by blast
qed

end
